theory Spec2Isabelle
  imports Main "HOL-Library.Word"
begin

unbundle bit_operations_syntax

section \<open>The MCA real-time-clock driver (drivers/rtc/rtc-mca.c)\<close>

text \<open>
  A shallow embedding of the driver. C \<open>int\<close> values are modelled as \<open>int\<close>
  (no theorem below relies on a C \<open>int\<close> overflowing), \<open>u8\<close> as \<open>8 word\<close>,
  \<open>unsigned short\<close> as \<open>16 word\<close>, \<open>unsigned int\<close> as \<open>32 word\<close> and
  \<open>unsigned long\<close> as \<open>64 word\<close> (an LP64 kernel). Every conversion between
  these widths that the C code performs implicitly is written out.
\<close>

type_synonym u8 = "8 word"
type_synonym u16 = "16 word"
type_synonym u32 = "32 word"
type_synonym u64 = "64 word"

subsection \<open>Constants of the register header\<close>

text \<open>
  The driver takes its field masks, register addresses and control bits from
  \<open>linux/mfd/mca-common/registers.h\<close>, which is not among the sources. They are
  a parameter of every function below: one record holding each macro the driver
  names, under the macro's own name.
\<close>

record mca_defs =
  MCA_RTC_YEAR_L_MASK :: int
  MCA_RTC_YEAR_H_MASK :: int
  MCA_RTC_MONTH_MASK :: int
  MCA_RTC_DAY_MASK :: int
  MCA_RTC_HOUR_MASK :: int
  MCA_RTC_MIN_MASK :: int
  MCA_RTC_SEC_MASK :: int
  MCA_RTC_CONTROL :: nat
  MCA_RTC_COUNT_YEAR_L :: nat
  MCA_RTC_COUNT_SEC :: nat
  MCA_RTC_ALARM_YEAR_L :: nat
  MCA_RTC_ALARM_SEC :: nat
  MCA_RTC_PREPARE_DATETIME :: nat
  MCA_RTC_PREPARE_ALARM :: nat
  MCA_RTC_PERIODIC_IRQ_FREQ :: nat
  MCA_IRQ_STATUS_0 :: nat
  MCA_RTC_EN :: u32
  MCA_RTC_ALARM_EN :: u32
  MCA_RTC_1HZ_EN :: u32
  MCA_RTC_PERIODIC_EN :: u32
  MCA_RTC_IRQ_PIN_EN :: u32
  MCA_RTC_ALARM :: u32

definition CLOCK_DATA_LEN :: "mca_defs \<Rightarrow> nat" where
  "CLOCK_DATA_LEN c = MCA_RTC_COUNT_SEC c - MCA_RTC_COUNT_YEAR_L c + 1"

definition ALARM_DATA_LEN :: "mca_defs \<Rightarrow> nat" where
  "ALARM_DATA_LEN c = MCA_RTC_ALARM_SEC c - MCA_RTC_ALARM_YEAR_L c + 1"

text \<open>The anonymous enums of the driver: byte positions in a register block, and
  the code written to a prepare register.\<close>

definition DATA_YEAR_L :: nat where "DATA_YEAR_L = 0"
definition DATA_YEAR_H :: nat where "DATA_YEAR_H = 1"
definition DATA_MONTH :: nat where "DATA_MONTH = 2"
definition DATA_DAY :: nat where "DATA_DAY = 3"
definition DATA_HOUR :: nat where "DATA_HOUR = 4"
definition DATA_MIN :: nat where "DATA_MIN = 5"
definition DATA_SEC :: nat where "DATA_SEC = 6"

definition MCA_RTC_ACQUIRE_IDLE :: u32 where "MCA_RTC_ACQUIRE_IDLE = 0"
definition MCA_RTC_ACQUIRE_REQUESTED :: u32 where "MCA_RTC_ACQUIRE_REQUESTED = 1"
definition MCA_RTC_ACQUIRE_READY :: u32 where "MCA_RTC_ACQUIRE_READY = 2"

text \<open>The errno values the driver returns (negated), as in \<open>errno.h\<close>.\<close>

definition EFAULT :: int where "EFAULT = 14"
definition EINVAL :: int where "EINVAL = 22"
definition ENOIOCTLCMD :: int where "ENOIOCTLCMD = 515"

subsection \<open>Calendar time and the register codec\<close>

text \<open>
  \<open>struct rtc_time\<close>, restricted to the six fields the driver reads and writes
  (\<open>tm_wday\<close>, \<open>tm_yday\<close> and \<open>tm_isdst\<close> are never touched by it). As in C,
  \<open>tm_year\<close> counts from 1900 and \<open>tm_mon\<close> from 0.
\<close>

record rtc_time =
  tm_sec :: int
  tm_min :: int
  tm_hour :: int
  tm_mday :: int
  tm_mon :: int
  tm_year :: int

text \<open>\<open>struct rtc_wkalrm\<close>: two \<open>unsigned char\<close> flags and the alarm time.\<close>

record rtc_wkalrm =
  enabled :: u8
  pending :: u8
  time :: rtc_time

text \<open>Storing an \<open>int\<close> into a \<open>u8\<close> keeps its low eight bits.\<close>

definition to_u8 :: "int \<Rightarrow> u8" where
  "to_u8 v = word_of_int v"

text \<open>\<open>data[i] &= v\<close> and \<open>data[i] |= v\<close> on a \<open>u8\<close> array with an \<open>int\<close>
  right-hand side: the byte is promoted to \<open>int\<close>, combined, and truncated on
  the store.\<close>

definition and_assign :: "u8 list \<Rightarrow> nat \<Rightarrow> int \<Rightarrow> u8 list" where
  "and_assign data i v = data[i := to_u8 (uint (data ! i) AND v)]"

definition or_assign :: "u8 list \<Rightarrow> nat \<Rightarrow> int \<Rightarrow> u8 list" where
  "or_assign data i v = data[i := to_u8 (uint (data ! i) OR v)]"

definition mca_data_to_tm :: "mca_defs \<Rightarrow> u8 list \<Rightarrow> rtc_time \<Rightarrow> rtc_time" where
  "mca_data_to_tm c data tm =
     tm\<lparr>tm_year := (push_bit 8 (uint (data ! DATA_YEAR_H) AND MCA_RTC_YEAR_H_MASK c)
                     OR (uint (data ! DATA_YEAR_L) AND MCA_RTC_YEAR_L_MASK c)) - 1900,
        tm_mon := (uint (data ! DATA_MONTH) AND MCA_RTC_MONTH_MASK c) - 1,
        tm_mday := uint (data ! DATA_DAY) AND MCA_RTC_DAY_MASK c,
        tm_hour := uint (data ! DATA_HOUR) AND MCA_RTC_HOUR_MASK c,
        tm_min := uint (data ! DATA_MIN) AND MCA_RTC_MIN_MASK c,
        tm_sec := uint (data ! DATA_SEC) AND MCA_RTC_SEC_MASK c\<rparr>"

text \<open>The two year bytes are cleared with \<open>(u8)~MASK\<close>, the other five with
  \<open>~MASK\<close>; the statements are kept in the order of the source.\<close>

definition mca_tm_to_data :: "mca_defs \<Rightarrow> rtc_time \<Rightarrow> u8 list \<Rightarrow> u8 list" where
  "mca_tm_to_data c tm data =
    (let d1 = and_assign data DATA_YEAR_L (uint (to_u8 (NOT (MCA_RTC_YEAR_L_MASK c))));
         d2 = and_assign d1 DATA_YEAR_H (uint (to_u8 (NOT (MCA_RTC_YEAR_H_MASK c))));
         d3 = or_assign d2 DATA_YEAR_L ((tm_year tm + 1900) AND MCA_RTC_YEAR_L_MASK c);
         d4 = or_assign d3 DATA_YEAR_H
                (drop_bit 8 (tm_year tm + 1900) AND MCA_RTC_YEAR_H_MASK c);
         d5 = and_assign d4 DATA_MONTH (NOT (MCA_RTC_MONTH_MASK c));
         d6 = or_assign d5 DATA_MONTH ((tm_mon tm + 1) AND MCA_RTC_MONTH_MASK c);
         d7 = and_assign d6 DATA_DAY (NOT (MCA_RTC_DAY_MASK c));
         d8 = or_assign d7 DATA_DAY (tm_mday tm AND MCA_RTC_DAY_MASK c);
         d9 = and_assign d8 DATA_HOUR (NOT (MCA_RTC_HOUR_MASK c));
         d10 = or_assign d9 DATA_HOUR (tm_hour tm AND MCA_RTC_HOUR_MASK c);
         d11 = and_assign d10 DATA_MIN (NOT (MCA_RTC_MIN_MASK c));
         d12 = or_assign d11 DATA_MIN (tm_min tm AND MCA_RTC_MIN_MASK c);
         d13 = and_assign d12 DATA_SEC (NOT (MCA_RTC_SEC_MASK c));
         d14 = or_assign d13 DATA_SEC (tm_sec tm AND MCA_RTC_SEC_MASK c)
     in d14)"

text \<open>The mask the codec applies to the byte at each position of a block.\<close>

definition field_mask :: "mca_defs \<Rightarrow> nat \<Rightarrow> int" where
  "field_mask c i =
     (if i = DATA_YEAR_L then MCA_RTC_YEAR_L_MASK c
      else if i = DATA_YEAR_H then MCA_RTC_YEAR_H_MASK c
      else if i = DATA_MONTH then MCA_RTC_MONTH_MASK c
      else if i = DATA_DAY then MCA_RTC_DAY_MASK c
      else if i = DATA_HOUR then MCA_RTC_HOUR_MASK c
      else if i = DATA_MIN then MCA_RTC_MIN_MASK c
      else MCA_RTC_SEC_MASK c)"

text \<open>
  The ranges the hardware fields are meant to hold: a year that fits the two year
  bytes, month 1 to 12 (\<open>tm_mon\<close> 0 to 11), day 1 to 31, and a time of day.
\<close>

definition hw_range_tm :: "rtc_time \<Rightarrow> bool" where
  "hw_range_tm tm =
     (0 \<le> tm_year tm + 1900 \<and> tm_year tm + 1900 \<le> 65535 \<and>
      0 \<le> tm_mon tm \<and> tm_mon tm \<le> 11 \<and>
      1 \<le> tm_mday tm \<and> tm_mday tm \<le> 31 \<and>
      0 \<le> tm_hour tm \<and> tm_hour tm \<le> 23 \<and>
      0 \<le> tm_min tm \<and> tm_min tm \<le> 59 \<and>
      0 \<le> tm_sec tm \<and> tm_sec tm \<le> 59)"

text \<open>
  The width each mask of the header has to offer for those ranges: all eight
  bits of both year bytes, four bits of month, five of day and hour, six of
  minute and second.
\<close>

definition masks_cover_fields :: "mca_defs \<Rightarrow> bool" where
  "masks_cover_fields c =
     (MCA_RTC_YEAR_L_MASK c AND 255 = 255 \<and>
      MCA_RTC_YEAR_H_MASK c AND 255 = 255 \<and>
      MCA_RTC_MONTH_MASK c AND 15 = 15 \<and>
      MCA_RTC_DAY_MASK c AND 31 = 31 \<and>
      MCA_RTC_HOUR_MASK c AND 31 = 31 \<and>
      MCA_RTC_MIN_MASK c AND 63 = 63 \<and>
      MCA_RTC_SEC_MASK c AND 63 = 63)"

text \<open>What the statement pair \<open>data[i] &= nm; data[i] |= v\<close> leaves in a byte
  that held \<open>d\<close>.\<close>

definition clear_set :: "u8 \<Rightarrow> int \<Rightarrow> int \<Rightarrow> u8" where
  "clear_set d nm v = to_u8 (uint (to_u8 (uint d AND nm)) OR v)"

text \<open>A sample assignment of the header's constants, used to run the model on
  concrete inputs.\<close>

definition sample_defs :: mca_defs where
  "sample_defs =
     \<lparr>MCA_RTC_YEAR_L_MASK = 255, MCA_RTC_YEAR_H_MASK = 255, MCA_RTC_MONTH_MASK = 15,
      MCA_RTC_DAY_MASK = 31, MCA_RTC_HOUR_MASK = 31, MCA_RTC_MIN_MASK = 63,
      MCA_RTC_SEC_MASK = 63,
      MCA_RTC_CONTROL = 257, MCA_RTC_COUNT_YEAR_L = 258, MCA_RTC_COUNT_SEC = 264,
      MCA_RTC_ALARM_YEAR_L = 265, MCA_RTC_ALARM_SEC = 271,
      MCA_RTC_PREPARE_DATETIME = 274, MCA_RTC_PREPARE_ALARM = 275,
      MCA_RTC_PERIODIC_IRQ_FREQ = 272, MCA_IRQ_STATUS_0 = 32,
      MCA_RTC_EN = 1, MCA_RTC_ALARM_EN = 2, MCA_RTC_1HZ_EN = 4, MCA_RTC_PERIODIC_EN = 8,
      MCA_RTC_IRQ_PIN_EN = 16, MCA_RTC_ALARM = 1\<rparr>"

subsection \<open>Linear timestamps\<close>

text \<open>
  \<open>mca_rtc_adjust_alarm_time\<close> calls \<open>rtc_tm_to_time64\<close> and
  \<open>rtc_time64_to_tm\<close> of the kernel's RTC library, which are not among the sources.
  The two conversions and the calendar arithmetic under them are modelled from the
  spec's description: a calendar time is converted to a linear timestamp (seconds,
  counted from 1970-01-01 00:00:00) and back, so that adding or subtracting a second
  rolls over minutes, days, months and years.
\<close>

text \<open>Modelled from the spec: the Gregorian leap-year rule behind the calendar
  conversions (not in the sources).\<close>

definition is_leap_year :: "int \<Rightarrow> bool" where
  "is_leap_year y = ((y mod 4 = 0 \<and> y mod 100 \<noteq> 0) \<or> y mod 400 = 0)"

text \<open>Modelled from the spec: the number of days of a year (not in the sources).\<close>

definition days_in_year :: "int \<Rightarrow> int" where
  "days_in_year y = (if is_leap_year y then 366 else 365)"

text \<open>Modelled from the spec: the lengths of the twelve months of a year (not in
  the sources).\<close>

definition month_lengths :: "int \<Rightarrow> int list" where
  "month_lengths y =
     [31, if is_leap_year y then 29 else 28, 31, 30, 31, 30, 31, 31, 30, 31, 30, 31]"

text \<open>Modelled from the spec: the length of month \<open>m\<close> (0 to 11) of year \<open>y\<close>, the
  kernel's \<open>rtc_month_days\<close> (not in the sources).\<close>

definition rtc_month_days :: "int \<Rightarrow> int \<Rightarrow> int" where
  "rtc_month_days m y = month_lengths y ! nat m"

text \<open>Modelled from the spec: the days from 1970-01-01 to the first of January of
  year \<open>y\<close>, negative before 1970 (not in the sources).\<close>

definition days_before_year :: "int \<Rightarrow> int" where
  "days_before_year y =
     365 * (y - 1970) + ((y - 1) div 4 - (y - 1) div 100 + (y - 1) div 400) - 477"

text \<open>Modelled from the spec: the days of year \<open>y\<close> that precede its month \<open>m\<close>
  (not in the sources).\<close>

definition days_before_month :: "int \<Rightarrow> int \<Rightarrow> int" where
  "days_before_month y m = sum_list (take (nat m) (month_lengths y))"

text \<open>Modelled from the spec: calendar validity of a time, the invariant of the
  spec's CalendarTime: a month of the year, a day of that month, a time of day.\<close>

definition calendar_valid :: "rtc_time \<Rightarrow> bool" where
  "calendar_valid tm =
     (0 \<le> tm_mon tm \<and> tm_mon tm \<le> 11 \<and>
      1 \<le> tm_mday tm \<and> tm_mday tm \<le> rtc_month_days (tm_mon tm) (tm_year tm + 1900) \<and>
      0 \<le> tm_hour tm \<and> tm_hour tm \<le> 23 \<and>
      0 \<le> tm_min tm \<and> tm_min tm \<le> 59 \<and>
      0 \<le> tm_sec tm \<and> tm_sec tm \<le> 59)"

text \<open>Modelled from the spec: \<open>rtc_tm_to_time64\<close>, the linear timestamp of a
  calendar time (not in the sources).\<close>

definition rtc_tm_to_time64 :: "rtc_time \<Rightarrow> int" where
  "rtc_tm_to_time64 tm =
     (let y = tm_year tm + 1900;
          days = days_before_year y + days_before_month y (tm_mon tm) + (tm_mday tm - 1)
      in ((days * 24 + tm_hour tm) * 60 + tm_min tm) * 60 + tm_sec tm)"

text \<open>Modelled from the spec: the year that holds day \<open>d\<close>, counted from the first
  of January of year \<open>y\<close>, and the day within that year (not in the sources).\<close>

function year_of_day :: "int \<Rightarrow> int \<Rightarrow> int \<times> int" where
  "year_of_day y d =
     (if d < 0 then year_of_day (y - 1) (d + days_in_year (y - 1))
      else if days_in_year y \<le> d then year_of_day (y + 1) (d - days_in_year y)
      else (y, d))"
  by pat_completeness auto
termination
  by (relation "measure (\<lambda>(y, d). if d < 0 then nat (- d) + 366 else nat d)")
     (auto simp add: days_in_year_def split: if_splits)

declare year_of_day.simps [simp del]

text \<open>Modelled from the spec: the month that holds day \<open>d\<close> of a year whose
  remaining months have the lengths \<open>ls\<close>, and the day within it (not in the
  sources).\<close>

fun month_of_day :: "int list \<Rightarrow> int \<Rightarrow> int \<Rightarrow> int \<times> int" where
  "month_of_day [] m d = (m, d)"
| "month_of_day (l # ls) m d = (if d < l then (m, d) else month_of_day ls (m + 1) (d - l))"

text \<open>Modelled from the spec: \<open>rtc_time64_to_tm\<close>, the calendar time of a linear
  timestamp (not in the sources).\<close>

definition rtc_time64_to_tm :: "int \<Rightarrow> rtc_time" where
  "rtc_time64_to_tm t =
     (let days = t div 86400; secs = t mod 86400;
          (y, yd) = year_of_day 1970 days;
          (m, md) = month_of_day (month_lengths y) 0 yd
      in \<lparr>tm_sec = secs mod 60, tm_min = (secs div 60) mod 60, tm_hour = secs div 3600,
          tm_mday = md + 1, tm_mon = m, tm_year = y - 1900\<rparr>)"

text \<open>
  The driver's own function: \<open>unsigned long time\<close> takes the \<open>time64_t\<close> result,
  is stepped by one with the wrap-around of its type, and is handed back as a
  \<open>time64_t\<close>.
\<close>

definition mca_rtc_adjust_alarm_time :: "rtc_wkalrm \<Rightarrow> bool \<Rightarrow> rtc_wkalrm" where
  "mca_rtc_adjust_alarm_time alrm inc =
     (let t0 = (word_of_int (rtc_tm_to_time64 (time alrm)) :: u64);
          t1 = (if inc then t0 + 1 else t0 - 1)
      in alrm\<lparr>time := rtc_time64_to_tm (sint t1)\<rparr>)"

subsection \<open>The device, the bus and the calls that leave the driver\<close>

text \<open>\<open>struct mca_rtc\<close>, without its two pointers (\<open>rtc_dev\<close>, \<open>mca\<close>).\<close>

record mca_rtc =
  irq_alarm :: int
  irq_1HZ :: int
  irq_periodic :: int
  alarm_enabled :: bool
  prepare_enabled :: bool

text \<open>
  The calls the driver makes into the rest of the kernel are recorded, in order, in
  a trace: bus transactions, log lines, notifications to the RTC core and stores to
  user memory.
\<close>

datatype bus_op =
    RegRead nat
  | RegWrite nat u32
  | BulkRead nat nat
  | BulkWrite nat "u8 list"
  | UpdateBits nat u32 u32

datatype rtc_flag = RTC_IRQF | RTC_AF | RTC_UF | RTC_PF

datatype event =
    Bus bus_op
  | DevErr string "int list"
  | DevWarn string "int list"
  | RtcUpdateIrq nat "rtc_flag list"
  | RtcHandleLegacyIrq nat rtc_flag
  | PutUser u64

text \<open>
  Everything a driver function can read or change: its \<open>struct mca_rtc\<close>, the
  byte-wide registers of the MCA behind the regmap, the errno each coming bus
  transaction will end with (0, or an exhausted list, for success), the trace, and
  the answer of \<open>device_may_wakeup\<close>.
\<close>

record world =
  rtc :: mca_rtc
  regs :: "nat \<Rightarrow> u8"
  bus :: "nat list"
  trace :: "event list"
  may_wakeup :: bool

text \<open>The bus transactions of a trace, in order.\<close>

fun bus_ops :: "event list \<Rightarrow> bus_op list" where
  "bus_ops [] = []"
| "bus_ops (Bus b # es) = b # bus_ops es"
| "bus_ops (e # es) = bus_ops es"

text \<open>The errno the \<open>k\<close>-th coming bus transaction will end with.\<close>

definition bus_errno :: "world \<Rightarrow> nat \<Rightarrow> nat" where
  "bus_errno w k = (if k < length (bus w) then bus w ! k else 0)"

text \<open>Modelled from the spec: one transaction of the register transport (not in
  the sources). It is recorded in the trace and takes the next errno; the transport
  either completes or fails with a transport error.\<close>

definition bus_xfer :: "world \<Rightarrow> bus_op \<Rightarrow> nat \<times> world" where
  "bus_xfer w b =
     (case bus w of
        [] \<Rightarrow> (0, w\<lparr>trace := trace w @ [Bus b]\<rparr>)
      | e # es \<Rightarrow> (e, w\<lparr>bus := es, trace := trace w @ [Bus b]\<rparr>))"

text \<open>Modelled from the spec: \<open>regmap_read\<close>, the transport's \<open>read(addr)\<close> (not in
  the sources). It returns 0 and the register, or a negative errno.\<close>

definition regmap_read :: "world \<Rightarrow> nat \<Rightarrow> int \<times> world \<times> u32" where
  "regmap_read w reg =
     (case bus_xfer w (RegRead reg) of
        (e, w') \<Rightarrow> if e = 0 then (0, w', ucast (regs w' reg)) else (- int e, w', 0))"

text \<open>Modelled from the spec: \<open>regmap_write\<close>, the transport's \<open>write(addr, value)\<close>
  (not in the sources).\<close>

definition regmap_write :: "world \<Rightarrow> nat \<Rightarrow> u32 \<Rightarrow> int \<times> world" where
  "regmap_write w reg v =
     (case bus_xfer w (RegWrite reg v) of
        (e, w') \<Rightarrow> if e = 0 then (0, w'\<lparr>regs := (regs w')(reg := ucast v)\<rparr>)
                   else (- int e, w'))"

text \<open>Modelled from the spec: \<open>regmap_bulk_read\<close>, the transport's
  \<open>bulk_read(addr, len)\<close> (not in the sources): \<open>n\<close> consecutive registers.\<close>

definition regmap_bulk_read :: "world \<Rightarrow> nat \<Rightarrow> nat \<Rightarrow> int \<times> world \<times> u8 list" where
  "regmap_bulk_read w reg n =
     (case bus_xfer w (BulkRead reg n) of
        (e, w') \<Rightarrow> if e = 0 then (0, w', map (\<lambda>i. regs w' (reg + i)) [0..<n])
                   else (- int e, w', []))"

text \<open>Modelled from the spec: \<open>regmap_bulk_write\<close>, the transport's
  \<open>bulk_write(addr, bytes)\<close> (not in the sources): consecutive registers from
  \<open>reg\<close> on take the bytes.\<close>

definition regmap_bulk_write :: "world \<Rightarrow> nat \<Rightarrow> u8 list \<Rightarrow> int \<times> world" where
  "regmap_bulk_write w reg data =
     (case bus_xfer w (BulkWrite reg data) of
        (e, w') \<Rightarrow>
          if e = 0
          then (0, w'\<lparr>regs := (\<lambda>a. if reg \<le> a \<and> a < reg + length data
                                    then data ! (a - reg) else regs w' a)\<rparr>)
          else (- int e, w'))"

text \<open>Modelled from the spec: the byte a register holds after an
  \<open>update_bits\<close> (not in the sources): the bits under the mask come from the
  value, the others stay.\<close>

definition updated_bits :: "u8 \<Rightarrow> u32 \<Rightarrow> u32 \<Rightarrow> u8" where
  "updated_bits old msk v = ucast ((ucast old AND NOT msk) OR (v AND msk))"

text \<open>Modelled from the spec: \<open>regmap_update_bits\<close>, the transport's
  \<open>update_bits(addr, mask, value)\<close> (not in the sources): a read-modify-write of
  one register.\<close>

definition regmap_update_bits :: "world \<Rightarrow> nat \<Rightarrow> u32 \<Rightarrow> u32 \<Rightarrow> int \<times> world" where
  "regmap_update_bits w reg msk v =
     (case bus_xfer w (UpdateBits reg msk v) of
        (e, w') \<Rightarrow>
          if e = 0
          then (0, w'\<lparr>regs := (regs w')(reg := updated_bits (regs w' reg) msk v)\<rparr>)
          else (- int e, w'))"

text \<open>Modelled from the spec: \<open>dev_err\<close> (not in the sources), a log line with its
  format string and arguments.\<close>

definition dev_err :: "world \<Rightarrow> string \<Rightarrow> int list \<Rightarrow> world" where
  "dev_err w fmt args = w\<lparr>trace := trace w @ [DevErr fmt args]\<rparr>"

text \<open>Modelled from the spec: \<open>dev_warn\<close> (not in the sources).\<close>

definition dev_warn :: "world \<Rightarrow> string \<Rightarrow> int list \<Rightarrow> world" where
  "dev_warn w fmt args = w\<lparr>trace := trace w @ [DevWarn fmt args]\<rparr>"

text \<open>Modelled from the spec: \<open>put_user\<close> (not in the sources), whose result the
  driver ignores.\<close>

definition put_user :: "world \<Rightarrow> u64 \<Rightarrow> world" where
  "put_user w v = w\<lparr>trace := trace w @ [PutUser v]\<rparr>"

text \<open>Modelled from the spec: \<open>rtc_update_irq\<close>, the event notification to the RTC
  framework (not in the sources); it returns nothing.\<close>

definition rtc_update_irq :: "world \<Rightarrow> nat \<Rightarrow> rtc_flag list \<Rightarrow> world" where
  "rtc_update_irq w num events = w\<lparr>trace := trace w @ [RtcUpdateIrq num events]\<rparr>"

text \<open>Modelled from the spec: \<open>rtc_handle_legacy_irq\<close>, the notification of an
  update or periodic tick to the RTC framework (not in the sources); it returns
  nothing.\<close>

definition rtc_handle_legacy_irq :: "world \<Rightarrow> nat \<Rightarrow> rtc_flag \<Rightarrow> world" where
  "rtc_handle_legacy_irq w num mode = w\<lparr>trace := trace w @ [RtcHandleLegacyIrq num mode]\<rparr>"

subsection \<open>The driver's operations\<close>

definition mca_rtc_stop_alarm :: "mca_defs \<Rightarrow> world \<Rightarrow> int \<times> world" where
  "mca_rtc_stop_alarm c w =
     regmap_update_bits w (MCA_RTC_CONTROL c) (MCA_RTC_ALARM_EN c) 0"

definition mca_rtc_start_alarm :: "mca_defs \<Rightarrow> world \<Rightarrow> int \<times> world" where
  "mca_rtc_start_alarm c w =
     regmap_update_bits w (MCA_RTC_CONTROL c) (MCA_RTC_ALARM_EN c) (MCA_RTC_ALARM_EN c)"

text \<open>
  The six commands of \<open>mca_rtc_ioctl\<close> and every other command number. A division
  by zero in C has no result: it is a fault of its own, apart from the return code.
\<close>

datatype ioctl_cmd =
    RTC_MCA_UIE_ON
  | RTC_MCA_UIE_OFF
  | RTC_MCA_PIE_ON
  | RTC_MCA_PIE_OFF
  | RTC_MCA_IRQP_READ
  | RTC_MCA_IRQP_SET
  | OTHER_CMD nat

datatype fault = DivideByZero

text \<open>An \<open>unsigned short\<close> in the two bytes a little-endian kernel keeps it in.\<close>

definition short_of_bytes :: "u8 list \<Rightarrow> u16" where
  "short_of_bytes bs = ucast (bs ! 0) OR push_bit 8 (ucast (bs ! 1))"

definition bytes_of_short :: "u16 \<Rightarrow> u8 list" where
  "bytes_of_short v = [ucast v, ucast (drop_bit 8 v)]"

definition mca_rtc_ioctl ::
  "mca_defs \<Rightarrow> world \<Rightarrow> ioctl_cmd \<Rightarrow> u64 \<Rightarrow> fault + (int \<times> world)" where
  "mca_rtc_ioctl c w cmd arg =
     (if cmd = RTC_MCA_UIE_ON \<or> cmd = RTC_MCA_UIE_OFF then
        (let enable = (cmd = RTC_MCA_UIE_ON) in
         case regmap_update_bits w (MCA_RTC_CONTROL c) (MCA_RTC_1HZ_EN c)
                (if enable then MCA_RTC_1HZ_EN c else 0) of
           (ret, w1) \<Rightarrow>
             if ret \<noteq> 0
             then Inr (- EFAULT,
                       dev_err w1 ''Cannot update MCA_RTC_CONTROL register (%d)'' [ret])
             else Inr (0, w1))
      else if cmd = RTC_MCA_PIE_ON \<or> cmd = RTC_MCA_PIE_OFF then
        (let enable = (cmd = RTC_MCA_PIE_ON) in
         case regmap_update_bits w (MCA_RTC_CONTROL c) (MCA_RTC_PERIODIC_EN c)
                (if enable then MCA_RTC_PERIODIC_EN c else 0) of
           (ret, w1) \<Rightarrow>
             if ret \<noteq> 0
             then Inr (- EFAULT,
                       dev_err w1 ''Cannot update MCA_RTC_CONTROL register (%d)'' [ret])
             else Inr (0, w1))
      else if cmd = RTC_MCA_IRQP_READ then
        (case regmap_bulk_read w (MCA_RTC_PERIODIC_IRQ_FREQ c) 2 of
           (ret, w1, bytes) \<Rightarrow>
             if ret < 0
             then Inr (- EFAULT, dev_err w1 ''Failed to get RTC periodic irq freq: %d'' [ret])
             else
               (let value_short = short_of_bytes bytes in
                if value_short = 0 then Inl DivideByZero
                else
                  (let value_long = (word_of_int (1024 div uint value_short) :: u64)
                   in Inr (0, put_user w1 value_long))))
      else if cmd = RTC_MCA_IRQP_SET then
        (let value_long = arg in
         if value_long = 0 then Inl DivideByZero
         else
           (let value_short = (ucast (1024 div value_long) :: u16) in
            case regmap_bulk_write w (MCA_RTC_PERIODIC_IRQ_FREQ c)
                   (bytes_of_short value_short) of
              (ret, w1) \<Rightarrow>
                if ret < 0
                then Inr (- EFAULT,
                          dev_err w1 ''Failed to set RTC periodic irq freq: %d'' [ret])
                else Inr (0, w1)))
      else Inr (- ENOIOCTLCMD, w))"

text \<open>The prepare handshake that opens \<open>mca_rtc_read_alarm\<close>: a failed write is
  logged and the read goes on.\<close>

definition prepare_alarm :: "mca_defs \<Rightarrow> world \<Rightarrow> world" where
  "prepare_alarm c w =
     (if prepare_enabled (rtc w)
      then (case regmap_write w (MCA_RTC_PREPARE_ALARM c) MCA_RTC_ACQUIRE_REQUESTED of
              (ret, w1) \<Rightarrow>
                if ret \<noteq> 0 then dev_warn w1 ''failed to write PREPARE_ALARM (%d)'' [ret]
                else w1)
      else w)"

text \<open>
  \<open>mca_rtc_read_alarm\<close> returns its code together with the caller's
  \<open>struct rtc_wkalrm\<close> as the function leaves it. The value read from the control
  register is bound to \<open>val\<close> and then overwritten by the read of the status
  register, as in the source.
\<close>

definition mca_rtc_read_alarm ::
  "mca_defs \<Rightarrow> world \<Rightarrow> rtc_wkalrm \<Rightarrow> int \<times> world \<times> rtc_wkalrm" where
  "mca_rtc_read_alarm c w alrm =
     (let data = replicate (CLOCK_DATA_LEN c) (0::u8);
          w1 = prepare_alarm c w
      in case regmap_bulk_read w1 (MCA_RTC_ALARM_YEAR_L c) (ALARM_DATA_LEN c) of
           (ret, w2, bytes) \<Rightarrow>
             if ret < 0 then (ret, w2, alrm)
             else
               (let data = bytes @ drop (length bytes) data;
                    alrm1 = alrm\<lparr>time := mca_data_to_tm c data (time alrm)\<rparr>;
                    alrm2 = mca_rtc_adjust_alarm_time alrm1 True
                in case regmap_read w2 (MCA_RTC_CONTROL c) of
                     (ret, w3, val) \<Rightarrow>
                       if ret < 0 then (ret, w3, alrm2)
                       else
                         (case regmap_read w3 (MCA_IRQ_STATUS_0 c) of
                            (ret, w4, val) \<Rightarrow>
                              if ret < 0 then (ret, w4, alrm2)
                              else (0, w4,
                                    alrm2\<lparr>pending :=
                                      (if val AND MCA_RTC_ALARM c \<noteq> 0 then 1 else 0)\<rparr>))))"

definition mca_rtc_alarm_irq_enable :: "mca_defs \<Rightarrow> world \<Rightarrow> u32 \<Rightarrow> int \<times> world" where
  "mca_rtc_alarm_irq_enable c w en =
     (if en \<noteq> 0 then
        (case mca_rtc_start_alarm c w of
           (ret, w1) \<Rightarrow>
             if ret \<noteq> 0 then (ret, dev_err w1 ''Failed to enable alarm IRQ (%d)'' [ret])
             else (ret, w1\<lparr>rtc := (rtc w1)\<lparr>alarm_enabled := True\<rparr>\<rparr>))
      else
        (case mca_rtc_stop_alarm c w of
           (ret, w1) \<Rightarrow>
             if ret \<noteq> 0 then (ret, dev_err w1 ''Failed to disable alarm IRQ (%d)'' [ret])
             else (ret, w1\<lparr>rtc := (rtc w1)\<lparr>alarm_enabled := False\<rparr>\<rparr>)))"

text \<open>The block \<open>mca_rtc_set_alarm\<close> writes: the adjusted time encoded into a
  zeroed buffer of \<open>CLOCK_DATA_LEN\<close> bytes, of which \<open>ALARM_DATA_LEN\<close> are sent.\<close>

definition alarm_block :: "mca_defs \<Rightarrow> rtc_wkalrm \<Rightarrow> u8 list" where
  "alarm_block c alrm =
     take (ALARM_DATA_LEN c)
       (mca_tm_to_data c (time (mca_rtc_adjust_alarm_time alrm False))
          (replicate (CLOCK_DATA_LEN c) 0))"

text \<open>\<open>mca_rtc_set_alarm\<close> adjusts the caller's \<open>struct rtc_wkalrm\<close> in place; it is
  returned as the function leaves it.\<close>

definition mca_rtc_set_alarm ::
  "mca_defs \<Rightarrow> world \<Rightarrow> rtc_wkalrm \<Rightarrow> int \<times> world \<times> rtc_wkalrm" where
  "mca_rtc_set_alarm c w alrm =
     (let data = replicate (CLOCK_DATA_LEN c) (0::u8);
          alrm1 = mca_rtc_adjust_alarm_time alrm False;
          data = mca_tm_to_data c (time alrm1) data
      in case regmap_bulk_write w (MCA_RTC_ALARM_YEAR_L c) (take (ALARM_DATA_LEN c) data) of
           (ret, w1) \<Rightarrow>
             if ret < 0 then (ret, w1, alrm1)
             else (case mca_rtc_alarm_irq_enable c w1 (ucast (enabled alrm1)) of
                     (ret, w2) \<Rightarrow> (ret, w2, alrm1)))"

datatype irqreturn = IRQ_NONE | IRQ_HANDLED | IRQ_WAKE_THREAD

definition mca_alarm_event :: "world \<Rightarrow> irqreturn \<times> world" where
  "mca_alarm_event w = (IRQ_HANDLED, rtc_update_irq w 1 [RTC_IRQF, RTC_AF])"

definition mca_1HZ_event :: "world \<Rightarrow> irqreturn \<times> world" where
  "mca_1HZ_event w = (IRQ_HANDLED, rtc_handle_legacy_irq w 1 RTC_UF)"

definition mca_periodic_irq_event :: "world \<Rightarrow> irqreturn \<times> world" where
  "mca_periodic_irq_event w = (IRQ_HANDLED, rtc_handle_legacy_irq w 1 RTC_PF)"

text \<open>The three interrupt lines and the handler \<open>mca_rtc_probe\<close> requests for each
  (\<open>irq_alarm\<close>, \<open>irq_1HZ\<close>, \<open>irq_periodic\<close>).\<close>

datatype irq_source = Alarm | OneHz | Periodic

fun irq_thread_fn :: "irq_source \<Rightarrow> world \<Rightarrow> irqreturn \<times> world" where
  "irq_thread_fn Alarm w = mca_alarm_event w"
| "irq_thread_fn OneHz w = mca_1HZ_event w"
| "irq_thread_fn Periodic w = mca_periodic_irq_event w"

text \<open>\<open>rtc_irq_pin_enable_store\<close>: \<open>strncmp\<close> against \<open>enabled\<close> (7 characters) and
  \<open>disabled\<close> (8 characters) compares the leading characters of the buffer.\<close>

definition rtc_irq_pin_enable_store ::
  "mca_defs \<Rightarrow> world \<Rightarrow> string \<Rightarrow> nat \<Rightarrow> int \<times> world" where
  "rtc_irq_pin_enable_store c w buf count =
     (let enable = (if take 7 buf = ''enabled'' then Some True
                    else if take 8 buf = ''disabled'' then Some False
                    else None)
      in case enable of
           None \<Rightarrow> (- EINVAL, w)
         | Some en \<Rightarrow>
             (case regmap_update_bits w (MCA_RTC_CONTROL c) (MCA_RTC_IRQ_PIN_EN c)
                     (if en then MCA_RTC_IRQ_PIN_EN c else 0) of
                (ret, w1) \<Rightarrow>
                  if ret \<noteq> 0
                  then (ret,
                        dev_err w1 ''Cannot update MCA_RTC_CONTROL register (%d)'' [ret])
                  else (int count, w1)))"

definition mca_rtc_suspend :: "mca_defs \<Rightarrow> world \<Rightarrow> int \<times> world" where
  "mca_rtc_suspend c w =
     (if \<not> may_wakeup w \<and> alarm_enabled (rtc w) then
        (case mca_rtc_stop_alarm c w of
           (ret, w1) \<Rightarrow>
             (0, if ret < 0 then dev_err w1 ''Failed to disable RTC Alarm'' [] else w1))
      else (0, w))"

definition mca_rtc_resume :: "mca_defs \<Rightarrow> world \<Rightarrow> int \<times> world" where
  "mca_rtc_resume c w =
     (if \<not> may_wakeup w \<and> alarm_enabled (rtc w) then
        (case mca_rtc_start_alarm c w of
           (ret, w1) \<Rightarrow>
             (0, if ret < 0 then dev_err w1 ''Failed to restart RTC Alarm'' [] else w1))
      else (0, w))"

text \<open>
  What one toggle of a control bit may do: a single \<open>update_bits\<close> transaction on
  \<open>MCA_RTC_CONTROL\<close> under the mask \<open>msk\<close>, no other register changed, no bit of
  the control register outside the mask changed, and, when the transaction
  succeeds, every bit under the mask set or cleared as asked.
\<close>

definition toggles_only :: "mca_defs \<Rightarrow> u32 \<Rightarrow> bool \<Rightarrow> world \<Rightarrow> world \<Rightarrow> bool" where
  "toggles_only c msk on w w' =
     (bus_ops (trace w') =
        bus_ops (trace w) @ [UpdateBits (MCA_RTC_CONTROL c) msk (if on then msk else 0)] \<and>
      (\<forall>a. a \<noteq> MCA_RTC_CONTROL c \<longrightarrow> regs w' a = regs w a) \<and>
      (\<forall>n. \<not> bit msk n \<longrightarrow>
         bit (regs w' (MCA_RTC_CONTROL c)) n = bit (regs w (MCA_RTC_CONTROL c)) n) \<and>
      (bus_errno w 0 = 0 \<longrightarrow>
         (\<forall>n<8. bit msk n \<longrightarrow> bit (regs w' (MCA_RTC_CONTROL c)) n = on)))"

text \<open>A device at rest, used to run the model: every register zero, no bus fault
  pending, the alarm disarmed, not a wake source.\<close>

definition sample_world :: world where
  "sample_world =
     \<lparr>rtc = \<lparr>irq_alarm = 1, irq_1HZ = 2, irq_periodic = 3, alarm_enabled = False,
              prepare_enabled = True\<rparr>,
      regs = (\<lambda>a. 0), bus = [], trace = [], may_wakeup = False\<rparr>"

section \<open>Properties of the register codec\<close>

lemmas data_idx =
  DATA_YEAR_L_def DATA_YEAR_H_def DATA_MONTH_def DATA_DAY_def DATA_HOUR_def DATA_MIN_def
  DATA_SEC_def

lemma and_assign_nth:
  "i < length data \<Longrightarrow>
   and_assign data i v ! j = (if j = i then to_u8 (uint (data ! i) AND v) else data ! j)"
  by (simp add: and_assign_def)

lemma or_assign_nth:
  "i < length data \<Longrightarrow>
   or_assign data i v ! j = (if j = i then to_u8 (uint (data ! i) OR v) else data ! j)"
  by (simp add: or_assign_def)

lemma length_and_assign: "length (and_assign data i v) = length data"
  by (simp add: and_assign_def)

lemma length_or_assign: "length (or_assign data i v) = length data"
  by (simp add: or_assign_def)

lemma length_encode: "length (mca_tm_to_data c tm data) = length data"
  by (simp add: mca_tm_to_data_def Let_def length_and_assign length_or_assign)

text \<open>Each byte of the encoder's output, read off the fourteen statements.\<close>

lemma encode_nth:
  assumes "length data = 7"
  shows "mca_tm_to_data c tm data ! 0 =
           clear_set (data ! 0) (uint (to_u8 (NOT (MCA_RTC_YEAR_L_MASK c))))
             ((tm_year tm + 1900) AND MCA_RTC_YEAR_L_MASK c)"
    and "mca_tm_to_data c tm data ! Suc 0 =
           clear_set (data ! Suc 0) (uint (to_u8 (NOT (MCA_RTC_YEAR_H_MASK c))))
             (drop_bit 8 (tm_year tm + 1900) AND MCA_RTC_YEAR_H_MASK c)"
    and "mca_tm_to_data c tm data ! 2 =
           clear_set (data ! 2) (NOT (MCA_RTC_MONTH_MASK c))
             ((tm_mon tm + 1) AND MCA_RTC_MONTH_MASK c)"
    and "mca_tm_to_data c tm data ! 3 =
           clear_set (data ! 3) (NOT (MCA_RTC_DAY_MASK c)) (tm_mday tm AND MCA_RTC_DAY_MASK c)"
    and "mca_tm_to_data c tm data ! 4 =
           clear_set (data ! 4) (NOT (MCA_RTC_HOUR_MASK c)) (tm_hour tm AND MCA_RTC_HOUR_MASK c)"
    and "mca_tm_to_data c tm data ! 5 =
           clear_set (data ! 5) (NOT (MCA_RTC_MIN_MASK c)) (tm_min tm AND MCA_RTC_MIN_MASK c)"
    and "mca_tm_to_data c tm data ! 6 =
           clear_set (data ! 6) (NOT (MCA_RTC_SEC_MASK c)) (tm_sec tm AND MCA_RTC_SEC_MASK c)"
  using assms
  by (simp_all add: mca_tm_to_data_def Let_def and_assign_nth or_assign_nth
      length_and_assign length_or_assign data_idx clear_set_def)

lemma clear_set_bit:
  "\<not> bit m n \<Longrightarrow> bit (clear_set d (NOT m) (v AND m)) n = bit d n"
  unfolding clear_set_def to_u8_def
  by (auto simp add: bit_simps dest: bit_imp_le_length)

lemma clear_set_bit_u8:
  "\<not> bit m n \<Longrightarrow> bit (clear_set d (uint (to_u8 (NOT m))) (v AND m)) n = bit d n"
  unfolding clear_set_def to_u8_def
  by (auto simp add: bit_simps dest: bit_imp_le_length)

lemma lt7:
  "i < 7 \<Longrightarrow> i = 0 \<or> i = Suc 0 \<or> i = 2 \<or> i = 3 \<or> i = 4 \<or> i = 5 \<or> i = (6::nat)"
  by arith

lemma fits_and:
  assumes "0 \<le> v" "v < 2 ^ n" "m AND mask n = (mask n :: int)"
  shows "v AND m = v"
proof -
  have "take_bit n v = v" using assms by (simp add: take_bit_int_eq_self)
  then have low: "v = v AND mask n" by (simp add: take_bit_eq_mask)
  then have "v AND m = (v AND mask n) AND m" by simp
  also have "\<dots> = v AND (m AND mask n)" by (simp add: ac_simps)
  also have "\<dots> = v" using assms(3) low by simp
  finally show ?thesis .
qed

lemma uint_to_u8: "0 \<le> v \<Longrightarrow> v < 256 \<Longrightarrow> uint (to_u8 v) = v"
  unfolding to_u8_def by (simp add: uint_word_of_int take_bit_int_eq_self)

lemma field_roundtrip:
  assumes "0 \<le> v" "v < 2 ^ n" "n \<le> 8" "m AND mask n = (mask n :: int)"
  shows "uint (clear_set 0 x (v AND m)) AND m = v"
proof -
  have vm: "v AND m = v" using assms fits_and by blast
  have "(2::int) ^ n \<le> 2 ^ 8" using assms(3) by (intro power_increasing) auto
  then have "v < 256" using assms(2) by simp
  then have "uint (to_u8 v) = v" using assms(1) by (simp add: uint_to_u8)
  then show ?thesis using vm by (simp add: clear_set_def to_u8_def)
qed

lemma year_join:
  assumes "0 \<le> y" "y \<le> 65535"
  shows "push_bit 8 (drop_bit 8 y) OR (y AND 255) = (y::int)"
proof -
  have "y AND 255 = take_bit 8 y" by (simp add: take_bit_eq_mask mask_eq_exp_minus_1)
  then have "push_bit 8 (drop_bit 8 y) OR (y AND 255) =
             push_bit 8 (drop_bit 8 y) OR take_bit 8 y" by simp
  also have "\<dots> = y"
    by (rule bit_eqI) (auto simp add: bit_simps)
  finally show ?thesis .
qed

lemma mask_bits:
  assumes "m AND mask k = (mask k :: int)" "n < k"
  shows "bit m n"
proof -
  have "bit (mask k :: int) n" using assms(2) by (simp add: bit_mask_iff)
  then have "bit (m AND mask k) n" using assms(1) by simp
  then show ?thesis by (simp add: bit_and_iff)
qed

lemma year_low:
  assumes "m AND 255 = (255::int)"
  shows "uint (clear_set 0 x (y AND m)) AND m = y AND 255"
proof -
  have e: "(255::int) = mask 8" by (simp add: mask_eq_exp_minus_1)
  have b: "\<And>n. n < 8 \<Longrightarrow> bit m n"
    using assms mask_bits[of m 8] unfolding e by blast
  show ?thesis
    unfolding e clear_set_def to_u8_def
    by (rule bit_eqI) (auto simp add: bit_simps b)
qed

lemma year_high:
  assumes "0 \<le> y" "y \<le> 65535"
  shows "0 \<le> drop_bit 8 y \<and> drop_bit 8 y < (2::int) ^ 8"
  using assms by (simp add: drop_bit_eq_div) arith

text \<open>
  Claim C1. Encoding a calendar time whose fields lie in the hardware's ranges into a
  zeroed seven-byte block and decoding the block gives the time back, the year-1900
  and month-1 offsets of \<open>struct rtc_time\<close> included, for every header whose masks
  are as wide as the fields.
\<close>

theorem codec_roundtrip:
  assumes m: "masks_cover_fields c" and r: "hw_range_tm t"
  shows "mca_data_to_tm c (mca_tm_to_data c t (replicate 7 0)) tm0 = t"
proof -
  let ?d = "mca_tm_to_data c t (replicate 7 0)"
  let ?y = "tm_year t + 1900"
  have len: "length (replicate 7 (0::u8)) = 7" by simp
  have z: "replicate 7 (0::u8) ! 0 = 0" "replicate 7 (0::u8) ! Suc 0 = 0"
    "replicate 7 (0::u8) ! 2 = 0" "replicate 7 (0::u8) ! 3 = 0" "replicate 7 (0::u8) ! 4 = 0"
    "replicate 7 (0::u8) ! 5 = 0" "replicate 7 (0::u8) ! 6 = 0"
    by simp_all
  have yl: "uint (?d ! 0) AND MCA_RTC_YEAR_L_MASK c = ?y AND 255"
    using m unfolding encode_nth[OF len] z
    by (intro year_low) (simp add: masks_cover_fields_def)
  have yh: "uint (?d ! Suc 0) AND MCA_RTC_YEAR_H_MASK c = drop_bit 8 ?y"
    using m r year_high[of ?y] unfolding encode_nth[OF len] z
    by (intro field_roundtrip[where n=8])
       (simp_all add: masks_cover_fields_def hw_range_tm_def mask_eq_exp_minus_1)
  have mon: "uint (?d ! 2) AND MCA_RTC_MONTH_MASK c = tm_mon t + 1"
    using m r unfolding encode_nth[OF len] z
    by (intro field_roundtrip[where n=4])
       (simp_all add: masks_cover_fields_def hw_range_tm_def mask_eq_exp_minus_1)
  have day: "uint (?d ! 3) AND MCA_RTC_DAY_MASK c = tm_mday t"
    using m r unfolding encode_nth[OF len] z
    by (intro field_roundtrip[where n=5])
       (simp_all add: masks_cover_fields_def hw_range_tm_def mask_eq_exp_minus_1)
  have hour: "uint (?d ! 4) AND MCA_RTC_HOUR_MASK c = tm_hour t"
    using m r unfolding encode_nth[OF len] z
    by (intro field_roundtrip[where n=5])
       (simp_all add: masks_cover_fields_def hw_range_tm_def mask_eq_exp_minus_1)
  have minute: "uint (?d ! 5) AND MCA_RTC_MIN_MASK c = tm_min t"
    using m r unfolding encode_nth[OF len] z
    by (intro field_roundtrip[where n=6])
       (simp_all add: masks_cover_fields_def hw_range_tm_def mask_eq_exp_minus_1)
  have sec: "uint (?d ! 6) AND MCA_RTC_SEC_MASK c = tm_sec t"
    using m r unfolding encode_nth[OF len] z
    by (intro field_roundtrip[where n=6])
       (simp_all add: masks_cover_fields_def hw_range_tm_def mask_eq_exp_minus_1)
  have year: "push_bit 8 (drop_bit 8 ?y) OR (?y AND 255) = ?y"
    using r by (intro year_join) (simp_all add: hw_range_tm_def)
  show ?thesis
    unfolding mca_data_to_tm_def data_idx
    using yl yh mon day hour minute sec year
    by simp
qed

theorem codec_roundtrip_witness:
  "masks_cover_fields sample_defs \<and>
   hw_range_tm
     \<lparr>tm_sec = 59, tm_min = 59, tm_hour = 23, tm_mday = 29, tm_mon = 1, tm_year = 124\<rparr> \<and>
   mca_data_to_tm sample_defs
     (mca_tm_to_data sample_defs
        \<lparr>tm_sec = 59, tm_min = 59, tm_hour = 23, tm_mday = 29, tm_mon = 1, tm_year = 124\<rparr>
        (replicate 7 0))
     \<lparr>tm_sec = 0, tm_min = 0, tm_hour = 0, tm_mday = 0, tm_mon = 0, tm_year = 0\<rparr>
   = \<lparr>tm_sec = 59, tm_min = 59, tm_hour = 23, tm_mday = 29, tm_mon = 1, tm_year = 124\<rparr>"
proof -
  have m: "masks_cover_fields sample_defs"
    by (simp add: masks_cover_fields_def sample_defs_def)
  have r: "hw_range_tm
      \<lparr>tm_sec = 59, tm_min = 59, tm_hour = 23, tm_mday = 29, tm_mon = 1, tm_year = 124\<rparr>"
    by (simp add: hw_range_tm_def)
  show ?thesis using m r codec_roundtrip [OF m r] by simp
qed

text \<open>
  Claim C6. Whatever the block held and whatever time is encoded, the encoder leaves
  every bit that lies outside the mask of its byte as it was.
\<close>

theorem encode_preserves_foreign_bits:
  assumes "length data = 7"
  shows "length (mca_tm_to_data c tm data) = 7 \<and>
         (\<forall>i<7. \<forall>n. \<not> bit (field_mask c i) n \<longrightarrow>
            bit (mca_tm_to_data c tm data ! i) n = bit (data ! i) n)"
proof (intro conjI allI impI)
  show "length (mca_tm_to_data c tm data) = 7" using assms by (simp add: length_encode)
next
  fix i n assume i: "i < 7" and nb: "\<not> bit (field_mask c i) n"
  from lt7[OF i] show "bit (mca_tm_to_data c tm data ! i) n = bit (data ! i) n"
    using nb assms
    by (elim disjE)
       (simp_all add: encode_nth field_mask_def data_idx clear_set_bit clear_set_bit_u8)
qed

theorem encode_preserves_foreign_bits_witness:
  "length [0, 0, 240, 224, 224, 192, 192 :: u8] = 7 \<and>
   \<not> bit (field_mask sample_defs 2) 7 \<and>
   bit ([0, 0, 240, 224, 224, 192, 192 :: u8] ! 2) 7 \<and>
   bit (mca_tm_to_data sample_defs
         \<lparr>tm_sec = 59, tm_min = 59, tm_hour = 23, tm_mday = 29, tm_mon = 1, tm_year = 124\<rparr>
         [0, 0, 240, 224, 224, 192, 192] ! 2) 7"
proof -
  have l: "length [0, 0, 240, 224, 224, 192, 192 :: u8] = 7" by simp
  have nb: "\<not> bit (field_mask sample_defs 2) 7"
    by (simp add: field_mask_def sample_defs_def data_idx bit_iff_odd_drop_bit drop_bit_eq_div)
  have b: "bit ([0, 0, 240, 224, 224, 192, 192 :: u8] ! 2) 7"
    by (simp add: bit_iff_odd_drop_bit drop_bit_eq_div)
  show ?thesis
    using l nb b encode_preserves_foreign_bits [OF l, of sample_defs
        "\<lparr>tm_sec = 59, tm_min = 59, tm_hour = 23, tm_mday = 29, tm_mon = 1, tm_year = 124\<rparr>"]
    by simp
qed

section \<open>Properties of the alarm adjustment\<close>

lemma days_in_year_pos: "365 \<le> days_in_year y" "days_in_year y \<le> 366"
  by (simp_all add: days_in_year_def)

lemma div_step:
  assumes "0 < k"
  shows "(y::int) div k = (y - 1) div k + (if y mod k = 0 then 1 else 0)"
proof (cases "y mod k = 0")
  case True
  have "y - 1 = k * (y div k - 1) + (k - 1)"
    using True by (simp add: algebra_simps) (metis mult_div_mod_eq add.right_neutral mult.commute)
  then have "(y - 1) div k = y div k - 1"
    using assms by (intro int_div_pos_eq[where r = "k - 1"]) simp_all
  then show ?thesis using True by simp
next
  case False
  have "0 \<le> y mod k" "y mod k < k" using assms by simp_all
  then have r: "0 \<le> y mod k - 1" "y mod k - 1 < k" using False by linarith+
  have "y - 1 = k * (y div k) + (y mod k - 1)" by simp
  then have "(y - 1) div k = y div k"
    using r by (intro int_div_pos_eq[where r = "y mod k - 1"]) simp_all
  then show ?thesis using False by simp
qed


lemma mod_100_4: "(y::int) mod 100 = 0 \<Longrightarrow> y mod 4 = 0"
  using mod_mod_cancel[of 4 100 y] by simp

lemma mod_400_100: "(y::int) mod 400 = 0 \<Longrightarrow> y mod 100 = 0"
  using mod_mod_cancel[of 100 400 y] by simp

lemma days_step_arith:
  fixes y q4 p4 i4 q100 p100 i100 q400 p400 i400 d :: int
  assumes "q4 = p4 + i4" "q100 = p100 + i100" "q400 = p400 + i400"
    and "i4 - i100 + i400 = d - 365"
  shows "365 * (y + 1 - 1970) + (q4 - q100 + q400) - 477 =
         (365 * (y - 1970) + (p4 - p100 + p400) - 477) + d"
proof -
  have "d = i4 - i100 + i400 + 365" using assms(4) by simp
  then show ?thesis using assms(1-3) by (simp add: algebra_simps)
qed

lemma days_before_year_Suc: "days_before_year (y + 1) = days_before_year y + days_in_year y"
proof -
  have a: "y div 4 = (y - 1) div 4 + (if y mod 4 = 0 then 1 else 0)"
    by (rule div_step) simp
  have b: "y div 100 = (y - 1) div 100 + (if y mod 100 = 0 then 1 else 0)"
    by (rule div_step) simp
  have c: "y div 400 = (y - 1) div 400 + (if y mod 400 = 0 then 1 else 0)"
    by (rule div_step) simp
  have "(if y mod 4 = 0 then 1 else 0) - (if y mod 100 = 0 then 1 else 0)
          + (if y mod 400 = 0 then 1 else 0) = days_in_year y - (365::int)"
  proof (cases "y mod 400 = 0")
    case True
    then show ?thesis
      using mod_400_100[of y] mod_100_4[of y] by (simp add: days_in_year_def is_leap_year_def)
  next
    case n400: False
    show ?thesis
    proof (cases "y mod 100 = 0")
      case True
      then show ?thesis
        using n400 mod_100_4[of y] by (simp add: days_in_year_def is_leap_year_def)
    next
      case False
      then show ?thesis
        using n400 by (simp add: days_in_year_def is_leap_year_def)
    qed
  qed
  then have "365 * (y + 1 - 1970) + (y div 4 - y div 100 + y div 400) - 477 =
             (365 * (y - 1970) + ((y - 1) div 4 - (y - 1) div 100 + (y - 1) div 400) - 477)
               + days_in_year y"
    by (rule days_step_arith[OF a b c])
  moreover have "y + 1 - 1 = y" by simp
  ultimately show ?thesis
    unfolding days_before_year_def by (simp only:)
qed

lemma days_before_year_pred: "days_before_year (y - 1) = days_before_year y - days_in_year (y - 1)"
  using days_before_year_Suc[of "y - 1"] by simp

lemma days_before_year_mono: "y \<le> z \<Longrightarrow> days_before_year y \<le> days_before_year z"
proof (induction "nat (z - y)" arbitrary: z)
  case 0
  then show ?case by simp
next
  case (Suc n)
  then have "n = nat ((z - 1) - y)" "y \<le> z - 1" by auto
  then have "days_before_year y \<le> days_before_year (z - 1)" using Suc.hyps(1) by blast
  then show ?case using days_before_year_pred[of z] days_in_year_pos[of "z - 1"] by linarith
qed

lemma year_of_day_sound:
  "year_of_day y0 d = (y, r) \<Longrightarrow>
   d = days_before_year y - days_before_year y0 + r \<and> 0 \<le> r \<and> r < days_in_year y"
proof (induction y0 d rule: year_of_day.induct)
  case (1 y0 d)
  show ?case
  proof (cases "d < 0")
    case True
    then have "year_of_day y0 d = year_of_day (y0 - 1) (d + days_in_year (y0 - 1))"
      by (subst year_of_day.simps) simp
    then have "year_of_day (y0 - 1) (d + days_in_year (y0 - 1)) = (y, r)"
      using "1.prems" by simp
    from "1.IH"(1)[OF True this] show ?thesis
      using days_before_year_pred[of y0] by simp
  next
    case False
    show ?thesis
    proof (cases "days_in_year y0 \<le> d")
      case True
      then have "year_of_day y0 d = year_of_day (y0 + 1) (d - days_in_year y0)"
        using False by (subst year_of_day.simps) simp
      then have "year_of_day (y0 + 1) (d - days_in_year y0) = (y, r)"
        using "1.prems" by simp
      from "1.IH"(2)[OF False True this] show ?thesis
        using days_before_year_Suc[of y0] by simp
    next
      case nle: False
      then have "year_of_day y0 d = (y0, d)"
        using False by (subst year_of_day.simps) simp
      then have "y = y0" "r = d" using "1.prems" by simp_all
      then show ?thesis using False nle by simp
    qed
  qed
qed

lemma year_of_day_unique:
  assumes "days_before_year y + r = days_before_year z + q"
    and "0 \<le> r" "r < days_in_year y" "0 \<le> q" "q < days_in_year z"
  shows "y = z \<and> r = q"
proof -
  have "\<not> y < z"
  proof
    assume "y < z"
    then have "days_before_year (y + 1) \<le> days_before_year z" by (intro days_before_year_mono) simp
    then show False using assms days_before_year_Suc[of y] by linarith
  qed
  moreover have "\<not> z < y"
  proof
    assume "z < y"
    then have "days_before_year (z + 1) \<le> days_before_year y" by (intro days_before_year_mono) simp
    then show False using assms days_before_year_Suc[of z] by linarith
  qed
  ultimately have "y = z" by simp
  then show ?thesis using assms(1) by simp
qed

lemma year_of_day_complete:
  assumes "0 \<le> r" "r < days_in_year y"
  shows "year_of_day y0 (days_before_year y - days_before_year y0 + r) = (y, r)"
proof -
  obtain z q where zq: "year_of_day y0 (days_before_year y - days_before_year y0 + r) = (z, q)"
    by (cases "year_of_day y0 (days_before_year y - days_before_year y0 + r)")
  from year_of_day_sound[OF zq]
  have "days_before_year y + r = days_before_year z + q" "0 \<le> q" "q < days_in_year z"
    by simp_all
  from year_of_day_unique[OF this(1) assms this(2,3)] show ?thesis using zq by simp
qed

lemma days_before_year_1970: "days_before_year 1970 = 0"
  by (simp add: days_before_year_def)

lemma month_lengths_nonneg: "l \<in> set (month_lengths y) \<Longrightarrow> 0 < l"
  by (auto simp add: month_lengths_def)

lemma length_month_lengths: "length (month_lengths y) = 12"
  by (simp add: month_lengths_def)

lemma sum_month_lengths: "sum_list (month_lengths y) = days_in_year y"
  by (simp add: month_lengths_def days_in_year_def)

lemma sum_take_le:
  "(\<And>l. l \<in> set ls \<Longrightarrow> 0 < l) \<Longrightarrow> sum_list (take j ls) \<le> (sum_list ls :: int)"
proof (induction ls arbitrary: j)
  case Nil
  then show ?case by simp
next
  case (Cons a ls)
  show ?case
  proof (cases j)
    case 0
    have "0 \<le> sum_list ls" using Cons.prems by (intro sum_list_nonneg) (simp add: less_imp_le)
    moreover have "0 < a" using Cons.prems by simp
    ultimately show ?thesis using 0 by simp
  next
    case (Suc k)
    have "sum_list (take k ls) \<le> sum_list ls" using Cons.prems by (intro Cons.IH) simp
    then show ?thesis using Suc by simp
  qed
qed

lemma sum_take_nonneg:
  "(\<And>l. l \<in> set ls \<Longrightarrow> 0 < l) \<Longrightarrow> 0 \<le> (sum_list (take j ls) :: int)"
  by (intro sum_list_nonneg) (auto dest!: in_set_takeD simp add: less_imp_le)

lemma sum_take_Suc:
  "j < length ls \<Longrightarrow> sum_list (take (Suc j) ls) = sum_list (take j ls) + (ls ! j :: int)"
  by (simp add: take_Suc_conv_app_nth)

lemma month_of_day_complete:
  assumes "\<And>l. l \<in> set ls \<Longrightarrow> 0 < l" "j < length ls" "0 \<le> r" "r < ls ! j"
  shows "month_of_day ls m (sum_list (take j ls) + r) = (m + int j, r)"
  using assms
proof (induction ls arbitrary: j m)
  case Nil
  then show ?case by simp
next
  case (Cons a ls)
  show ?case
  proof (cases j)
    case 0
    then show ?thesis using Cons.prems by simp
  next
    case (Suc k)
    have pos: "\<And>l. l \<in> set ls \<Longrightarrow> 0 < l" using Cons.prems(1) by simp
    have k: "k < length ls" "r < ls ! k" using Cons.prems Suc by simp_all
    have "0 \<le> sum_list (take k ls)" using pos by (rule sum_take_nonneg)
    then have "\<not> a + sum_list (take k ls) + r < a" using Cons.prems(3) by simp
    moreover have "month_of_day ls (m + 1) (sum_list (take k ls) + r) = (m + 1 + int k, r)"
      using pos k Cons.prems(3) by (intro Cons.IH) simp_all
    ultimately show ?thesis using Suc by (simp add: algebra_simps)
  qed
qed

lemma month_of_day_sound:
  assumes "month_of_day ls m d = (k, r)" "\<And>l. l \<in> set ls \<Longrightarrow> 0 < l" "0 \<le> d" "d < sum_list ls"
  shows "\<exists>j. k = m + int j \<and> j < length ls \<and> d = sum_list (take j ls) + r \<and> 0 \<le> r \<and> r < ls ! j"
  using assms
proof (induction ls arbitrary: m d)
  case Nil
  then show ?case by simp
next
  case (Cons a ls)
  show ?case
  proof (cases "d < a")
    case True
    then have "k = m" "r = d" using Cons.prems(1) by simp_all
    then have "k = m + int 0 \<and> 0 < length (a # ls) \<and> d = sum_list (take 0 (a # ls)) + r \<and> 0 \<le> r \<and> r < (a # ls) ! 0"
      using True Cons.prems(3) by simp
    then show ?thesis by blast
  next
    case False
    then have rec: "month_of_day ls (m + 1) (d - a) = (k, r)" using Cons.prems(1) by simp
    have "\<exists>j. k = m + 1 + int j \<and> j < length ls \<and> d - a = sum_list (take j ls) + r \<and> 0 \<le> r \<and> r < ls ! j"
      using rec Cons.prems False by (intro Cons.IH) simp_all
    then obtain j where j: "k = m + 1 + int j" "j < length ls" "d - a = sum_list (take j ls) + r" "0 \<le> r" "r < ls ! j"
      by blast
    then have "k = m + int (Suc j) \<and> Suc j < length (a # ls) \<and> d = sum_list (take (Suc j) (a # ls)) + r \<and> 0 \<le> r \<and> r < (a # ls) ! Suc j"
      by simp
    then show ?thesis by blast
  qed
qed

lemma secs_split:
  assumes "0 \<le> h" "h \<le> 23" "0 \<le> mi" "mi \<le> 59" "0 \<le> se" "se \<le> (59::int)"
  shows "((D * 24 + h) * 60 + mi) * 60 + se = D * 86400 + (h * 3600 + mi * 60 + se)"
    and "0 \<le> h * 3600 + mi * 60 + se" and "h * 3600 + mi * 60 + se < 86400"
  using assms by (simp_all add: algebra_simps)

lemma div_mod_pos:
  assumes "0 \<le> r" "r < (k::int)"
  shows "(q * k + r) div k = q" "(q * k + r) mod k = r"
proof -
  have e: "q * k + r = k * q + r" by simp
  show "(q * k + r) div k = q" using e assms by (rule int_div_pos_eq)
  show "(q * k + r) mod k = r" using e assms by (rule int_mod_pos_eq)
qed

lemma hms_split:
  assumes "0 \<le> h" "h \<le> 23" "0 \<le> mi" "mi \<le> 59" "0 \<le> se" "se \<le> (59::int)"
  shows "(h * 3600 + mi * 60 + se) mod 60 = se"
    and "((h * 3600 + mi * 60 + se) div 60) mod 60 = mi"
    and "(h * 3600 + mi * 60 + se) div 3600 = h"
proof -
  have a: "h * 3600 + mi * 60 + se = (h * 60 + mi) * 60 + se" by simp
  have se: "0 \<le> se" "se < 60" using assms by simp_all
  have mi: "0 \<le> mi" "mi < 60" using assms by simp_all
  show "(h * 3600 + mi * 60 + se) mod 60 = se" unfolding a using se by (rule div_mod_pos)
  have b: "(h * 3600 + mi * 60 + se) div 60 = h * 60 + mi"
    unfolding a using se by (rule div_mod_pos)
  show "((h * 3600 + mi * 60 + se) div 60) mod 60 = mi"
    unfolding b using mi by (rule div_mod_pos)
  have c: "h * 3600 + mi * 60 + se = h * 3600 + (mi * 60 + se)" by simp
  have "0 \<le> mi * 60 + se" "mi * 60 + se < 3600" using assms by simp_all
  then show "(h * 3600 + mi * 60 + se) div 3600 = h" unfolding c by (rule div_mod_pos)
qed

lemma day_of_year_range:
  assumes "calendar_valid tm"
  shows "0 \<le> days_before_month (tm_year tm + 1900) (tm_mon tm) + (tm_mday tm - 1)"
    and "days_before_month (tm_year tm + 1900) (tm_mon tm) + (tm_mday tm - 1)
           < days_in_year (tm_year tm + 1900)"
proof -
  let ?ls = "month_lengths (tm_year tm + 1900)"
  let ?j = "nat (tm_mon tm)"
  have "0 \<le> tm_mon tm" "tm_mon tm \<le> 11" using assms by (simp_all add: calendar_valid_def)
  then have j: "?j < length ?ls" unfolding length_month_lengths by linarith
  have d: "1 \<le> tm_mday tm" "tm_mday tm \<le> ?ls ! ?j"
    using assms by (simp_all add: calendar_valid_def rtc_month_days_def)
  have "0 \<le> sum_list (take ?j ?ls)" by (intro sum_take_nonneg month_lengths_nonneg)
  then show "0 \<le> days_before_month (tm_year tm + 1900) (tm_mon tm) + (tm_mday tm - 1)"
    using d by (simp add: days_before_month_def)
  have "sum_list (take (Suc ?j) ?ls) \<le> sum_list ?ls" by (intro sum_take_le month_lengths_nonneg)
  then have "sum_list (take ?j ?ls) + ?ls ! ?j \<le> days_in_year (tm_year tm + 1900)"
    using j by (simp add: sum_take_Suc sum_month_lengths)
  then show "days_before_month (tm_year tm + 1900) (tm_mon tm) + (tm_mday tm - 1)
           < days_in_year (tm_year tm + 1900)"
    using d by (simp add: days_before_month_def)
qed

lemma time64_to_tm_of_tm:
  assumes v: "calendar_valid tm"
  shows "rtc_time64_to_tm (rtc_tm_to_time64 tm) = tm"
proof -
  let ?y = "tm_year tm + 1900"
  let ?yd = "days_before_month ?y (tm_mon tm) + (tm_mday tm - 1)"
  let ?D = "days_before_year ?y + ?yd"
  let ?s = "tm_hour tm * 3600 + tm_min tm * 60 + tm_sec tm"
  have r: "0 \<le> tm_hour tm" "tm_hour tm \<le> 23" "0 \<le> tm_min tm" "tm_min tm \<le> 59"
    "0 \<le> tm_sec tm" "tm_sec tm \<le> 59"
    using v by (simp_all add: calendar_valid_def)
  have T: "rtc_tm_to_time64 tm = ?D * 86400 + ?s"
    unfolding rtc_tm_to_time64_def Let_def using secs_split(1)[OF r] by simp
  have s: "0 \<le> ?s" "?s < 86400" using secs_split(2,3)[OF r] by simp_all
  have dm: "(?D * 86400 + ?s) div 86400 = ?D" "(?D * 86400 + ?s) mod 86400 = ?s"
    using s by (rule div_mod_pos)+
  have yr: "year_of_day 1970 ?D = (?y, ?yd)"
    using year_of_day_complete[OF day_of_year_range[OF v], of 1970]
    by (simp add: days_before_year_1970)
  have mr: "0 \<le> tm_mon tm" "tm_mon tm \<le> 11" using v by (simp_all add: calendar_valid_def)
  then have j: "nat (tm_mon tm) < length (month_lengths ?y)"
    unfolding length_month_lengths by linarith
  have md: "0 \<le> tm_mday tm - 1" "tm_mday tm - 1 < month_lengths ?y ! nat (tm_mon tm)"
    using v by (simp_all add: calendar_valid_def rtc_month_days_def)
  have mo: "month_of_day (month_lengths ?y) 0 ?yd = (tm_mon tm, tm_mday tm - 1)"
    using month_of_day_complete[OF month_lengths_nonneg j md, where m = 0] v
    by (simp add: days_before_month_def calendar_valid_def)
  show ?thesis
    unfolding rtc_time64_to_tm_def T Let_def dm yr
    using hms_split[OF r] by (simp add: mo)
qed

lemma sixty_sq: "(q * 60 + r) * 60 = q * 3600 + r * (60::int)"
  by (simp add: algebra_simps)

lemma hms_join: "(s div 3600) * 3600 + ((s div 60) mod 60) * 60 + s mod 60 = (s::int)"
proof -
  define a where "a = s div 60"
  have h: "s div 3600 = a div 60"
    using zdiv_zmult2_eq[of 60 s 60] by (simp add: a_def)
  have "(a div 60) * 3600 + (a mod 60) * 60 = ((a div 60) * 60 + a mod 60) * 60"
    by (rule sixty_sq[symmetric])
  also have "\<dots> = a * 60" by (simp only: div_mult_mod_eq)
  finally have "(a div 60) * 3600 + (a mod 60) * 60 = a * 60" .
  moreover have "a * 60 + s mod 60 = s" by (simp add: a_def)
  ultimately show ?thesis unfolding h a_def[symmetric] by linarith
qed

lemma tm_of_time64_of_tm: "rtc_tm_to_time64 (rtc_time64_to_tm x) = x"
proof -
  let ?D = "x div 86400"
  let ?s = "x mod 86400"
  obtain y yd where yr: "year_of_day 1970 ?D = (y, yd)"
    by (cases "year_of_day 1970 ?D")
  obtain m md where mo: "month_of_day (month_lengths y) 0 yd = (m, md)"
    by (cases "month_of_day (month_lengths y) 0 yd")
  from year_of_day_sound[OF yr]
  have D: "?D = days_before_year y + yd" and yd: "0 \<le> yd" "yd < days_in_year y"
    by (simp_all add: days_before_year_1970)
  have "yd < sum_list (month_lengths y)" using yd by (simp add: sum_month_lengths)
  have pos: "\<And>l. l \<in> set (month_lengths y) \<Longrightarrow> 0 < l" by (rule month_lengths_nonneg)
  from month_of_day_sound[OF mo pos yd(1) \<open>yd < sum_list (month_lengths y)\<close>]
  obtain j where j: "m = int j" "yd = sum_list (take j (month_lengths y)) + md"
    by auto
  have tm: "rtc_time64_to_tm x =
      \<lparr>tm_sec = ?s mod 60, tm_min = (?s div 60) mod 60, tm_hour = ?s div 3600,
       tm_mday = md + 1, tm_mon = m, tm_year = y - 1900\<rparr>"
    unfolding rtc_time64_to_tm_def Let_def yr by (simp add: mo)
  have "rtc_tm_to_time64 (rtc_time64_to_tm x) =
        ((?D * 24 + ?s div 3600) * 60 + (?s div 60) mod 60) * 60 + ?s mod 60"
    unfolding tm rtc_tm_to_time64_def Let_def
    using D j by (simp add: days_before_month_def)
  also have "\<dots> = ?D * 86400 + ((?s div 3600) * 3600 + ((?s div 60) mod 60) * 60 + ?s mod 60)"
    by (simp add: algebra_simps)
  also have "\<dots> = ?D * 86400 + ?s" by (simp only: hms_join)
  also have "\<dots> = x" by simp
  finally show ?thesis .
qed

lemma days_before_year_bounds:
  assumes "0 \<le> y" "y \<le> 65535"
  shows "- 719528 \<le> days_before_year y" "days_before_year y \<le> 23216639"
proof -
  have "days_before_year 0 \<le> days_before_year y" using assms(1) by (rule days_before_year_mono)
  then show "- 719528 \<le> days_before_year y" by (simp add: days_before_year_def)
  have "days_before_year y \<le> days_before_year 65535" using assms(2) by (rule days_before_year_mono)
  then show "days_before_year y \<le> 23216639" by (simp add: days_before_year_def)
qed

lemma time64_bounds:
  assumes v: "calendar_valid tm" and y: "0 \<le> tm_year tm + 1900" "tm_year tm + 1900 \<le> 65535"
  shows "- 62167219200 \<le> rtc_tm_to_time64 tm" "rtc_tm_to_time64 tm < 2005949232000"
proof -
  let ?y = "tm_year tm + 1900"
  let ?yd = "days_before_month ?y (tm_mon tm) + (tm_mday tm - 1)"
  let ?D = "days_before_year ?y + ?yd"
  let ?s = "tm_hour tm * 3600 + tm_min tm * 60 + tm_sec tm"
  have r: "0 \<le> tm_hour tm" "tm_hour tm \<le> 23" "0 \<le> tm_min tm" "tm_min tm \<le> 59"
    "0 \<le> tm_sec tm" "tm_sec tm \<le> 59"
    using v by (simp_all add: calendar_valid_def)
  have T: "rtc_tm_to_time64 tm = ?D * 86400 + ?s"
    unfolding rtc_tm_to_time64_def Let_def using secs_split(1)[OF r] by simp
  have s: "0 \<le> ?s" "?s < 86400" using secs_split(2,3)[OF r] by simp_all
  have yd: "0 \<le> ?yd" "?yd < 366"
    using day_of_year_range[OF v] days_in_year_pos(2)[of ?y] by linarith+
  have D: "- 719528 \<le> ?D" "?D \<le> 23217004"
    using days_before_year_bounds[OF y] yd by linarith+
  have lo: "- 719528 * 86400 \<le> ?D * 86400" using D(1) by (intro mult_right_mono) simp_all
  have hi: "?D * 86400 \<le> 23217004 * 86400" using D(2) by (intro mult_right_mono) simp_all
  show "- 62167219200 \<le> rtc_tm_to_time64 tm" unfolding T using lo s(1) by linarith
  show "rtc_tm_to_time64 tm < 2005949232000" unfolding T using hi s(2) by linarith
qed

lemma sint_dec:
  assumes "- 9223372036854775808 < k" "k < (9223372036854775808::int)"
  shows "sint ((word_of_int k :: u64) - 1) = k - 1"
proof -
  have "(word_of_int k :: u64) - 1 = word_of_int (k - 1)" by simp
  then have "sint ((word_of_int k :: u64) - 1) = signed_take_bit 63 (k - 1)"
    by (simp only: sint_sbintrunc') simp
  also have "\<dots> = k - 1" using assms by (intro signed_take_bit_int_eq_self) simp_all
  finally show ?thesis .
qed

lemma sint_inc:
  assumes "- 9223372036854775808 \<le> k" "k < (9223372036854775808::int)"
  shows "sint ((word_of_int (k - 1) :: u64) + 1) = k"
proof -
  have "(word_of_int (k - 1) :: u64) + 1 = word_of_int k" by simp
  then have "sint ((word_of_int (k - 1) :: u64) + 1) = signed_take_bit 63 k"
    by (simp only: sint_sbintrunc') simp
  also have "\<dots> = k" using assms by (intro signed_take_bit_int_eq_self) simp_all
  finally show ?thesis .
qed

text \<open>
  Claim C3. For every valid alarm time in the hardware's year range, subtracting a
  second (to hardware) and then adding one (from hardware) gives the alarm back
  unchanged, across day, month and year boundaries alike.
\<close>

theorem adjust_alarm_roundtrip:
  assumes v: "calendar_valid (time alrm)"
    and y: "0 \<le> tm_year (time alrm) + 1900" "tm_year (time alrm) + 1900 \<le> 65535"
  shows "mca_rtc_adjust_alarm_time (mca_rtc_adjust_alarm_time alrm False) True = alrm"
proof -
  let ?T = "rtc_tm_to_time64 (time alrm)"
  have b: "- 9223372036854775808 < ?T" "?T < 9223372036854775808"
    using time64_bounds[OF v y] by linarith+
  have down: "time (mca_rtc_adjust_alarm_time alrm False) = rtc_time64_to_tm (?T - 1)"
    using sint_dec[OF b] by (simp add: mca_rtc_adjust_alarm_time_def Let_def)
  have "time (mca_rtc_adjust_alarm_time (mca_rtc_adjust_alarm_time alrm False) True) =
        rtc_time64_to_tm (sint ((word_of_int (?T - 1) :: u64) + 1))"
    unfolding mca_rtc_adjust_alarm_time_def[of _ True] Let_def down tm_of_time64_of_tm
    by simp
  also have "\<dots> = rtc_time64_to_tm ?T" using sint_inc[of ?T] b by simp
  also have "\<dots> = time alrm" using v by (rule time64_to_tm_of_tm)
  finally have "time (mca_rtc_adjust_alarm_time (mca_rtc_adjust_alarm_time alrm False) True) = time alrm" .
  then show ?thesis
    by (simp add: mca_rtc_adjust_alarm_time_def Let_def)
qed

theorem adjust_alarm_roundtrip_witness:
  "calendar_valid \<lparr>tm_sec = 59, tm_min = 59, tm_hour = 23, tm_mday = 31, tm_mon = 11, tm_year = 123\<rparr> \<and>
   mca_rtc_adjust_alarm_time (mca_rtc_adjust_alarm_time
      \<lparr>enabled = 1, pending = 0,
       time = \<lparr>tm_sec = 59, tm_min = 59, tm_hour = 23, tm_mday = 31, tm_mon = 11, tm_year = 123\<rparr>\<rparr> False) True =
      \<lparr>enabled = 1, pending = 0,
       time = \<lparr>tm_sec = 59, tm_min = 59, tm_hour = 23, tm_mday = 31, tm_mon = 11, tm_year = 123\<rparr>\<rparr>"
proof -
  let ?t = "\<lparr>tm_sec = 59, tm_min = 59, tm_hour = 23, tm_mday = 31, tm_mon = 11, tm_year = 123\<rparr>"
  let ?a = "\<lparr>enabled = 1, pending = 0, time = ?t\<rparr>"
  have v: "calendar_valid (time ?a)"
    by (simp add: calendar_valid_def rtc_month_days_def month_lengths_def)
  have y: "0 \<le> tm_year (time ?a) + 1900" "tm_year (time ?a) + 1900 \<le> 65535" by simp_all
  show ?thesis using v adjust_alarm_roundtrip [OF v y] by simp
qed

lemma adjust_rollover_example:
  "time (mca_rtc_adjust_alarm_time
      \<lparr>enabled = 1, pending = 0,
       time = \<lparr>tm_sec = 59, tm_min = 59, tm_hour = 23, tm_mday = 31, tm_mon = 11, tm_year = 123\<rparr>\<rparr> True)
   = \<lparr>tm_sec = 0, tm_min = 0, tm_hour = 0, tm_mday = 1, tm_mon = 0, tm_year = 124\<rparr>"
  by code_simp

lemma adjust_leap_example:
  "time (mca_rtc_adjust_alarm_time
      \<lparr>enabled = 1, pending = 0,
       time = \<lparr>tm_sec = 0, tm_min = 0, tm_hour = 0, tm_mday = 1, tm_mon = 2, tm_year = 124\<rparr>\<rparr> False)
   = \<lparr>tm_sec = 59, tm_min = 59, tm_hour = 23, tm_mday = 29, tm_mon = 1, tm_year = 124\<rparr>"
  by code_simp

section \<open>Properties of the driver's operations\<close>

subsection \<open>The transport, unfolded\<close>

lemma bus_xfer_eq:
  "bus_xfer w b = (bus_errno w 0, w\<lparr>bus := tl (bus w), trace := trace w @ [Bus b]\<rparr>)"
  by (cases "bus w") (simp_all add: bus_xfer_def bus_errno_def)

lemma bus_ops_append: "bus_ops (xs @ ys) = bus_ops xs @ bus_ops ys"
  by (induction xs rule: bus_ops.induct) simp_all

lemma bus_errno_upd:
  "bus_errno (w\<lparr>regs := r\<rparr>) k = bus_errno w k"
  "bus_errno (w\<lparr>trace := t\<rparr>) k = bus_errno w k"
  "bus_errno (w\<lparr>rtc := x\<rparr>) k = bus_errno w k"
  "bus_errno (w\<lparr>bus := tl (bus w)\<rparr>) k = bus_errno w (Suc k)"
  by (cases "bus w"; simp add: bus_errno_def)+

lemma updated_bits_bit:
  "bit (updated_bits old msk v) n = (n < 8 \<and> (if bit msk n then bit v n else bit old n))"
  unfolding updated_bits_def
  by (auto simp add: bit_simps dest: bit_imp_le_length)

lemma updated_bits_clear: "updated_bits old m 0 AND ucast m = 0"
  by (rule bit_eqI) (auto simp add: updated_bits_bit bit_simps)

lemma updated_bits_set: "updated_bits old m m AND ucast m = ucast m"
  by (rule bit_eqI) (auto simp add: updated_bits_bit bit_simps dest: bit_imp_le_length)

lemma regmap_update_bits_eq:
  "regmap_update_bits w reg msk v =
     (if bus_errno w 0 = 0
      then (0, w\<lparr>bus := tl (bus w), trace := trace w @ [Bus (UpdateBits reg msk v)],
                 regs := (regs w)(reg := updated_bits (regs w reg) msk v)\<rparr>)
      else (- int (bus_errno w 0),
            w\<lparr>bus := tl (bus w), trace := trace w @ [Bus (UpdateBits reg msk v)]\<rparr>))"
  by (simp add: regmap_update_bits_def bus_xfer_eq)

lemma regmap_bulk_write_eq:
  "regmap_bulk_write w reg data =
     (if bus_errno w 0 = 0
      then (0, w\<lparr>bus := tl (bus w), trace := trace w @ [Bus (BulkWrite reg data)],
                 regs := (\<lambda>a. if reg \<le> a \<and> a < reg + length data
                               then data ! (a - reg) else regs w a)\<rparr>)
      else (- int (bus_errno w 0),
            w\<lparr>bus := tl (bus w), trace := trace w @ [Bus (BulkWrite reg data)]\<rparr>))"
  by (simp add: regmap_bulk_write_def bus_xfer_eq cong: if_cong)

lemma start_alarm_eq:
  "mca_rtc_start_alarm c w =
     (if bus_errno w 0 = 0
      then (0, w\<lparr>bus := tl (bus w),
                 trace := trace w @ [Bus (UpdateBits (MCA_RTC_CONTROL c) (MCA_RTC_ALARM_EN c) (MCA_RTC_ALARM_EN c))],
                 regs := (regs w)(MCA_RTC_CONTROL c :=
                    updated_bits (regs w (MCA_RTC_CONTROL c)) (MCA_RTC_ALARM_EN c) (MCA_RTC_ALARM_EN c))\<rparr>)
      else (- int (bus_errno w 0),
            w\<lparr>bus := tl (bus w),
              trace := trace w @ [Bus (UpdateBits (MCA_RTC_CONTROL c) (MCA_RTC_ALARM_EN c) (MCA_RTC_ALARM_EN c))]\<rparr>))"
  by (simp add: mca_rtc_start_alarm_def regmap_update_bits_eq)

lemma stop_alarm_eq:
  "mca_rtc_stop_alarm c w =
     (if bus_errno w 0 = 0
      then (0, w\<lparr>bus := tl (bus w),
                 trace := trace w @ [Bus (UpdateBits (MCA_RTC_CONTROL c) (MCA_RTC_ALARM_EN c) 0)],
                 regs := (regs w)(MCA_RTC_CONTROL c :=
                    updated_bits (regs w (MCA_RTC_CONTROL c)) (MCA_RTC_ALARM_EN c) 0)\<rparr>)
      else (- int (bus_errno w 0),
            w\<lparr>bus := tl (bus w),
              trace := trace w @ [Bus (UpdateBits (MCA_RTC_CONTROL c) (MCA_RTC_ALARM_EN c) 0)]\<rparr>))"
  by (simp add: mca_rtc_stop_alarm_def regmap_update_bits_eq)

lemma adjust_enabled: "enabled (mca_rtc_adjust_alarm_time alrm inc) = enabled alrm"
  by (simp add: mca_rtc_adjust_alarm_time_def Let_def)

lemma ucast_u8_u32_eq_0: "((ucast (x::u8) :: u32) = 0) = (x = 0)"
proof
  assume "(ucast x :: u32) = 0"
  then have "uint (ucast x :: u32) = 0" by simp
  moreover have "uint (ucast x :: u32) = uint x"
    by (rule uint_up_ucast) (simp add: is_up)
  ultimately show "x = 0" by (simp add: uint_0_iff)
next
  assume "x = 0" then show "(ucast x :: u32) = 0" by simp
qed

lemma set_alarm_eq:
  "mca_rtc_set_alarm c w alrm =
     (case regmap_bulk_write w (MCA_RTC_ALARM_YEAR_L c) (alarm_block c alrm) of
        (ret, w1) \<Rightarrow>
          if ret < 0 then (ret, w1, mca_rtc_adjust_alarm_time alrm False)
          else (case mca_rtc_alarm_irq_enable c w1 (ucast (enabled alrm)) of
                  (ret, w2) \<Rightarrow> (ret, w2, mca_rtc_adjust_alarm_time alrm False)))"
  by (simp add: mca_rtc_set_alarm_def Let_def alarm_block_def adjust_enabled
      split: prod.splits)

subsection \<open>Setting and reading the alarm\<close>

text \<open>
  Claim C5. \<open>mca_rtc_set_alarm\<close> writes the alarm block, which holds the time
  adjusted by one second and encoded, before it touches the enable bit. When the
  write fails, the write is the only bus transaction, nothing has changed, and the
  write's errno is returned. When the write succeeds and the enable step fails, the
  alarm registers hold the new block, the armed flag is as it was, and the enable
  step's errno is returned.
\<close>

theorem set_alarm_write_then_enable:
  "(case mca_rtc_set_alarm c w alrm of
      (ret, w', alrm') \<Rightarrow>
        alrm' = mca_rtc_adjust_alarm_time alrm False \<and>
        (if bus_errno w 0 \<noteq> 0
         then ret = - int (bus_errno w 0) \<and>
              bus_ops (trace w') =
                bus_ops (trace w) @ [BulkWrite (MCA_RTC_ALARM_YEAR_L c) (alarm_block c alrm)] \<and>
              regs w' = regs w \<and> rtc w' = rtc w
         else bus_ops (trace w') =
                bus_ops (trace w) @
                  [BulkWrite (MCA_RTC_ALARM_YEAR_L c) (alarm_block c alrm),
                   UpdateBits (MCA_RTC_CONTROL c) (MCA_RTC_ALARM_EN c)
                     (if enabled alrm \<noteq> 0 then MCA_RTC_ALARM_EN c else 0)] \<and>
              (if bus_errno w 1 \<noteq> 0
               then ret = - int (bus_errno w 1) \<and>
                    regs w' =
                      (\<lambda>a. if MCA_RTC_ALARM_YEAR_L c \<le> a \<and>
                               a < MCA_RTC_ALARM_YEAR_L c + length (alarm_block c alrm)
                            then alarm_block c alrm ! (a - MCA_RTC_ALARM_YEAR_L c)
                            else regs w a) \<and>
                    rtc w' = rtc w
               else ret = 0 \<and> alarm_enabled (rtc w') = (enabled alrm \<noteq> 0))))"
  by (simp add: set_alarm_eq regmap_bulk_write_eq
      mca_rtc_alarm_irq_enable_def start_alarm_eq stop_alarm_eq dev_err_def bus_ops_append
      bus_errno_upd ucast_u8_u32_eq_0 cong: if_cong)

theorem set_alarm_write_then_enable_witness:
  "bus_errno (sample_world\<lparr>bus := [0, 5]\<rparr>) 0 = 0 \<and>
   bus_errno (sample_world\<lparr>bus := [0, 5]\<rparr>) 1 = 5 \<and>
   fst (mca_rtc_set_alarm sample_defs (sample_world\<lparr>bus := [0, 5]\<rparr>)
          \<lparr>enabled = 1, pending = 0,
           time = \<lparr>tm_sec = 0, tm_min = 0, tm_hour = 12, tm_mday = 1, tm_mon = 2, tm_year = 124\<rparr>\<rparr>) = - 5 \<and>
   rtc (fst (snd (mca_rtc_set_alarm sample_defs (sample_world\<lparr>bus := [0, 5]\<rparr>)
          \<lparr>enabled = 1, pending = 0,
           time = \<lparr>tm_sec = 0, tm_min = 0, tm_hour = 12, tm_mday = 1, tm_mon = 2, tm_year = 124\<rparr>\<rparr>)))
     = rtc sample_world"
proof -
  let ?w = "sample_world\<lparr>bus := [0, 5]\<rparr>"
  let ?a = "\<lparr>enabled = 1, pending = 0,
           time = \<lparr>tm_sec = 0, tm_min = 0, tm_hour = 12, tm_mday = 1, tm_mon = 2, tm_year = 124\<rparr>\<rparr>"
  have e0: "bus_errno ?w 0 = 0" by (simp add: bus_errno_def)
  have e1: "bus_errno ?w 1 = 5" by (simp add: bus_errno_def)
  have "fst (mca_rtc_set_alarm sample_defs ?w ?a) = - 5 \<and>
        rtc (fst (snd (mca_rtc_set_alarm sample_defs ?w ?a))) = rtc ?w"
    using set_alarm_write_then_enable [of ?a ?w sample_defs] e0 e1
    by (simp split: prod.splits)
  then show ?thesis using e0 e1 by simp
qed

lemma read_alarm_keeps_enabled:
  "enabled (snd (snd (mca_rtc_read_alarm c w alrm))) = enabled alrm"
  by (simp add: mca_rtc_read_alarm_def Let_def adjust_enabled split: prod.splits)

lemma set_then_read_alarm_example:
  "(case mca_rtc_set_alarm sample_defs sample_world
           \<lparr>enabled = 1, pending = 0,
            time = \<lparr>tm_sec = 0, tm_min = 0, tm_hour = 12, tm_mday = 1, tm_mon = 2, tm_year = 124\<rparr>\<rparr> of
      (ret, w1, a1) \<Rightarrow>
        ret = 0 \<and> alarm_enabled (rtc w1) \<and>
        regs w1 (MCA_RTC_CONTROL sample_defs) AND 2 = 2 \<and>
        map (regs w1) [265, 266, 267, 268, 269, 270, 271] = [232, 7, 3, 1, 11, 59, 59] \<and>
        (case mca_rtc_read_alarm sample_defs w1
                \<lparr>enabled = 0, pending = 0,
                 time = \<lparr>tm_sec = 0, tm_min = 0, tm_hour = 0, tm_mday = 0, tm_mon = 0, tm_year = 0\<rparr>\<rparr> of
           (ret2, w2, a2) \<Rightarrow>
             ret2 = 0 \<and>
             time a2 = \<lparr>tm_sec = 0, tm_min = 0, tm_hour = 12, tm_mday = 1, tm_mon = 2, tm_year = 124\<rparr> \<and>
             enabled a2 = 0))"
  by code_simp

text \<open>
  Claim C2, on the code. On a device at rest, \<open>mca_rtc_set_alarm\<close> of
  2024-03-01 12:00:00 with \<open>enabled = 1\<close> succeeds, stores 2024-03-01 11:59:59 in
  the alarm registers, sets the enable bit of the control register and the armed
  flag. \<open>mca_rtc_read_alarm\<close> into a zeroed \<open>struct rtc_wkalrm\<close> then returns the
  time 12:00:00, and leaves \<open>enabled\<close> at 0: the control register is read, and
  the value is overwritten by the read of the status register. On every device
  and for every argument, \<open>enabled\<close> comes back as the caller passed it.
\<close>

theorem read_alarm_drops_enable_status:
  "enabled (snd (snd (mca_rtc_read_alarm c w alrm))) = enabled alrm \<and>
   (case mca_rtc_set_alarm sample_defs sample_world
           \<lparr>enabled = 1, pending = 0,
            time = \<lparr>tm_sec = 0, tm_min = 0, tm_hour = 12, tm_mday = 1, tm_mon = 2, tm_year = 124\<rparr>\<rparr> of
      (ret, w1, a1) \<Rightarrow>
        ret = 0 \<and> alarm_enabled (rtc w1) \<and>
        regs w1 (MCA_RTC_CONTROL sample_defs) AND 2 = 2 \<and>
        map (regs w1) [265, 266, 267, 268, 269, 270, 271] = [232, 7, 3, 1, 11, 59, 59] \<and>
        (case mca_rtc_read_alarm sample_defs w1
                \<lparr>enabled = 0, pending = 0,
                 time = \<lparr>tm_sec = 0, tm_min = 0, tm_hour = 0, tm_mday = 0, tm_mon = 0, tm_year = 0\<rparr>\<rparr> of
           (ret2, w2, a2) \<Rightarrow>
             ret2 = 0 \<and>
             time a2 = \<lparr>tm_sec = 0, tm_min = 0, tm_hour = 12, tm_mday = 1, tm_mon = 2, tm_year = 124\<rparr> \<and>
             enabled a2 = 0))"
  using read_alarm_keeps_enabled [of c w alrm] set_then_read_alarm_example by simp

subsection \<open>Arming and disarming\<close>

text \<open>
  Claim C7. \<open>mca_rtc_alarm_irq_enable\<close> issues one update of the enable bit.
  When it succeeds, 0 is returned and the armed flag takes the requested value;
  when it fails, the negative errno is returned, and the armed flag and the
  registers are as they were.
\<close>

theorem alarm_flag_updated_on_success_only:
  "(if bus_errno w 0 = 0
    then fst (mca_rtc_alarm_irq_enable c w en) = 0 \<and>
         alarm_enabled (rtc (snd (mca_rtc_alarm_irq_enable c w en))) = (en \<noteq> 0)
    else fst (mca_rtc_alarm_irq_enable c w en) = - int (bus_errno w 0) \<and>
         fst (mca_rtc_alarm_irq_enable c w en) \<noteq> 0 \<and>
         alarm_enabled (rtc (snd (mca_rtc_alarm_irq_enable c w en))) = alarm_enabled (rtc w) \<and>
         regs (snd (mca_rtc_alarm_irq_enable c w en)) = regs w) \<and>
   bus_ops (trace (snd (mca_rtc_alarm_irq_enable c w en))) =
     bus_ops (trace w) @
       [UpdateBits (MCA_RTC_CONTROL c) (MCA_RTC_ALARM_EN c)
          (if en \<noteq> 0 then MCA_RTC_ALARM_EN c else 0)]"
  by (simp add: mca_rtc_alarm_irq_enable_def start_alarm_eq stop_alarm_eq dev_err_def
      bus_ops_append)

theorem alarm_flag_updated_on_success_only_witness:
  "bus_errno (sample_world\<lparr>bus := [5]\<rparr>) 0 = 5 \<and>
   fst (mca_rtc_alarm_irq_enable sample_defs (sample_world\<lparr>bus := [5]\<rparr>) 1) = - 5 \<and>
   alarm_enabled (rtc (snd (mca_rtc_alarm_irq_enable sample_defs (sample_world\<lparr>bus := [5]\<rparr>) 1)))
     = alarm_enabled (rtc sample_world) \<and>
   bus_errno sample_world 0 = 0 \<and>
   alarm_enabled (rtc (snd (mca_rtc_alarm_irq_enable sample_defs sample_world 1)))"
proof -
  have e: "bus_errno (sample_world\<lparr>bus := [5]\<rparr>) 0 = 5" by (simp add: bus_errno_def)
  have z: "bus_errno sample_world 0 = 0" by (simp add: bus_errno_def sample_world_def)
  show ?thesis
    using e z alarm_flag_updated_on_success_only [of "sample_world\<lparr>bus := [5]\<rparr>" sample_defs 1]
      alarm_flag_updated_on_success_only [of sample_world sample_defs 1]
    by simp
qed

text \<open>
  Claim C8. Suspend and resume touch the hardware exactly when the device is not a
  wake source and the armed flag is set: suspend then clears the enable bit, resume
  sets it. Neither changes the armed flag, and both return 0, a failed write being
  logged only.
\<close>

theorem suspend_resume_mute_hardware_only:
  "fst (mca_rtc_suspend c w) = 0 \<and> fst (mca_rtc_resume c w) = 0 \<and>
   rtc (snd (mca_rtc_suspend c w)) = rtc w \<and> rtc (snd (mca_rtc_resume c w)) = rtc w \<and>
   may_wakeup (snd (mca_rtc_suspend c w)) = may_wakeup w \<and>
   may_wakeup (snd (mca_rtc_resume c w)) = may_wakeup w \<and>
   trace (snd (mca_rtc_suspend c w)) =
     trace w @
       (if \<not> may_wakeup w \<and> alarm_enabled (rtc w)
        then Bus (UpdateBits (MCA_RTC_CONTROL c) (MCA_RTC_ALARM_EN c) 0) #
             (if bus_errno w 0 = 0 then [] else [DevErr ''Failed to disable RTC Alarm'' []])
        else []) \<and>
   trace (snd (mca_rtc_resume c w)) =
     trace w @
       (if \<not> may_wakeup w \<and> alarm_enabled (rtc w)
        then Bus (UpdateBits (MCA_RTC_CONTROL c) (MCA_RTC_ALARM_EN c) (MCA_RTC_ALARM_EN c)) #
             (if bus_errno w 0 = 0 then [] else [DevErr ''Failed to restart RTC Alarm'' []])
        else []) \<and>
   regs (snd (mca_rtc_suspend c w)) =
     (if \<not> may_wakeup w \<and> alarm_enabled (rtc w) \<and> bus_errno w 0 = 0
      then (regs w)(MCA_RTC_CONTROL c :=
             updated_bits (regs w (MCA_RTC_CONTROL c)) (MCA_RTC_ALARM_EN c) 0)
      else regs w) \<and>
   regs (snd (mca_rtc_resume c w)) =
     (if \<not> may_wakeup w \<and> alarm_enabled (rtc w) \<and> bus_errno w 0 = 0
      then (regs w)(MCA_RTC_CONTROL c :=
             updated_bits (regs w (MCA_RTC_CONTROL c)) (MCA_RTC_ALARM_EN c) (MCA_RTC_ALARM_EN c))
      else regs w) \<and>
   regs (snd (mca_rtc_suspend c w)) (MCA_RTC_CONTROL c) AND ucast (MCA_RTC_ALARM_EN c) =
     (if \<not> may_wakeup w \<and> alarm_enabled (rtc w) \<and> bus_errno w 0 = 0 then 0
      else regs w (MCA_RTC_CONTROL c) AND ucast (MCA_RTC_ALARM_EN c)) \<and>
   regs (snd (mca_rtc_resume c w)) (MCA_RTC_CONTROL c) AND ucast (MCA_RTC_ALARM_EN c) =
     (if \<not> may_wakeup w \<and> alarm_enabled (rtc w) \<and> bus_errno w 0 = 0
      then ucast (MCA_RTC_ALARM_EN c)
      else regs w (MCA_RTC_CONTROL c) AND ucast (MCA_RTC_ALARM_EN c))"
  by (simp add: mca_rtc_suspend_def mca_rtc_resume_def start_alarm_eq stop_alarm_eq dev_err_def
      updated_bits_clear updated_bits_set)

theorem suspend_resume_mute_hardware_only_witness:
  "fst (mca_rtc_suspend sample_defs
          (sample_world\<lparr>rtc := (rtc sample_world)\<lparr>alarm_enabled := True\<rparr>, regs := (\<lambda>a. 3)\<rparr>)) = 0 \<and>
   alarm_enabled (rtc (snd (mca_rtc_suspend sample_defs
          (sample_world\<lparr>rtc := (rtc sample_world)\<lparr>alarm_enabled := True\<rparr>, regs := (\<lambda>a. 3)\<rparr>)))) \<and>
   regs (snd (mca_rtc_suspend sample_defs
          (sample_world\<lparr>rtc := (rtc sample_world)\<lparr>alarm_enabled := True\<rparr>, regs := (\<lambda>a. 3)\<rparr>)))
     (MCA_RTC_CONTROL sample_defs) = 1 \<and>
   regs (snd (mca_rtc_resume sample_defs (snd (mca_rtc_suspend sample_defs
          (sample_world\<lparr>rtc := (rtc sample_world)\<lparr>alarm_enabled := True\<rparr>, regs := (\<lambda>a. 3)\<rparr>)))))
     (MCA_RTC_CONTROL sample_defs) = 3"
proof -
  let ?w = "sample_world\<lparr>rtc := (rtc sample_world)\<lparr>alarm_enabled := True\<rparr>, regs := (\<lambda>a. 3)\<rparr>"
  let ?s = "snd (mca_rtc_suspend sample_defs ?w)"
  have c: "\<not> may_wakeup ?w \<and> alarm_enabled (rtc ?w) \<and> bus_errno ?w 0 = 0"
    by (simp add: sample_world_def bus_errno_def)
  have u0: "updated_bits 3 (MCA_RTC_ALARM_EN sample_defs) 0 = 1"
    by (simp add: updated_bits_def sample_defs_def)
  have u1: "updated_bits 1 (MCA_RTC_ALARM_EN sample_defs) (MCA_RTC_ALARM_EN sample_defs) = 3"
    by (simp add: updated_bits_def sample_defs_def)
  have s: "fst (mca_rtc_suspend sample_defs ?w) = 0 \<and> rtc ?s = rtc ?w \<and>
           may_wakeup ?s = may_wakeup ?w \<and>
           regs ?s = (regs ?w)(MCA_RTC_CONTROL sample_defs := 1)"
    using suspend_resume_mute_hardware_only [of sample_defs ?w] c u0 by simp
  have b: "bus ?s = []" by (simp add: mca_rtc_suspend_def stop_alarm_eq sample_world_def bus_errno_def)
  then have c2: "\<not> may_wakeup ?s \<and> alarm_enabled (rtc ?s) \<and> bus_errno ?s 0 = 0"
    using s c by (simp add: bus_errno_def)
  have "regs (snd (mca_rtc_resume sample_defs ?s)) (MCA_RTC_CONTROL sample_defs) = 3"
    using suspend_resume_mute_hardware_only [of sample_defs ?s] c2 s u1 by simp
  then show ?thesis using s c by simp
qed

subsection \<open>Interrupts\<close>

text \<open>
  Claim C9. The handler of each interrupt line hands exactly one notification of
  the matching kind to the RTC core, changes nothing else, and returns
  \<open>IRQ_HANDLED\<close> whatever the state of the device; the notification calls return
  nothing the handler could act on.
\<close>

theorem irq_handlers_notify_once:
  "fst (irq_thread_fn src w) = IRQ_HANDLED \<and>
   snd (irq_thread_fn src w) =
     w\<lparr>trace := trace w @
         [case src of
            Alarm \<Rightarrow> RtcUpdateIrq 1 [RTC_IRQF, RTC_AF]
          | OneHz \<Rightarrow> RtcHandleLegacyIrq 1 RTC_UF
          | Periodic \<Rightarrow> RtcHandleLegacyIrq 1 RTC_PF]\<rparr>"
  by (cases src)
     (simp_all add: mca_alarm_event_def mca_1HZ_event_def mca_periodic_irq_event_def
        rtc_update_irq_def rtc_handle_legacy_irq_def)

theorem irq_handlers_notify_once_witness:
  "fst (irq_thread_fn Alarm sample_world) = IRQ_HANDLED \<and>
   trace (snd (irq_thread_fn Alarm sample_world)) = [RtcUpdateIrq 1 [RTC_IRQF, RTC_AF]] \<and>
   trace (snd (irq_thread_fn OneHz sample_world)) = [RtcHandleLegacyIrq 1 RTC_UF] \<and>
   trace (snd (irq_thread_fn Periodic sample_world)) = [RtcHandleLegacyIrq 1 RTC_PF]"
  using irq_handlers_notify_once [of Alarm sample_world]
    irq_handlers_notify_once [of OneHz sample_world]
    irq_handlers_notify_once [of Periodic sample_world]
  by (simp add: sample_world_def)

subsection \<open>The ioctl shim and the control bits\<close>

text \<open>
  Claim C4, on the code. \<open>RTC_MCA_IRQP_SET\<close> with a frequency of 0 divides 1024
  by zero, on every device; so does \<open>RTC_MCA_IRQP_READ\<close> when the frequency
  register reads 0. Neither command checks its divisor.
\<close>

theorem irqp_zero_divides:
  "mca_rtc_ioctl c w RTC_MCA_IRQP_SET 0 = Inl DivideByZero \<and>
   mca_rtc_ioctl sample_defs sample_world RTC_MCA_IRQP_READ arg = Inl DivideByZero"
  by (simp add: mca_rtc_ioctl_def regmap_bulk_read_def bus_xfer_def sample_world_def
      short_of_bytes_def)

lemma toggles_only_update:
  "toggles_only c msk on w (snd (regmap_update_bits w (MCA_RTC_CONTROL c) msk (if on then msk else 0)))"
  unfolding toggles_only_def regmap_update_bits_eq
  by (auto simp add: bus_ops_append updated_bits_bit dest: bit_imp_le_length)

lemma toggles_only_err:
  "toggles_only c msk on w w1 \<Longrightarrow> toggles_only c msk on w (dev_err w1 fmt args)"
  by (simp add: toggles_only_def dev_err_def bus_ops_append)

lemma ioctl_uie:
  "\<exists>r w'. mca_rtc_ioctl c w (if on then RTC_MCA_UIE_ON else RTC_MCA_UIE_OFF) arg = Inr (r, w') \<and>
          toggles_only c (MCA_RTC_1HZ_EN c) on w w'"
proof -
  let ?u = "regmap_update_bits w (MCA_RTC_CONTROL c) (MCA_RTC_1HZ_EN c)
              (if on then MCA_RTC_1HZ_EN c else 0)"
  have t: "toggles_only c (MCA_RTC_1HZ_EN c) on w (snd ?u)" by (rule toggles_only_update)
  show ?thesis
  proof (cases "fst ?u = 0")
    case True
    then have "mca_rtc_ioctl c w (if on then RTC_MCA_UIE_ON else RTC_MCA_UIE_OFF) arg = Inr (0, snd ?u)"
      by (cases on; cases ?u; simp add: mca_rtc_ioctl_def Let_def)
    then show ?thesis using t by blast
  next
    case False
    then have "mca_rtc_ioctl c w (if on then RTC_MCA_UIE_ON else RTC_MCA_UIE_OFF) arg =
          Inr (- EFAULT, dev_err (snd ?u) ''Cannot update MCA_RTC_CONTROL register (%d)'' [fst ?u])"
      by (cases on; cases ?u; simp add: mca_rtc_ioctl_def Let_def)
    then show ?thesis using toggles_only_err[OF t] by blast
  qed
qed

lemma ioctl_pie:
  "\<exists>r w'. mca_rtc_ioctl c w (if on then RTC_MCA_PIE_ON else RTC_MCA_PIE_OFF) arg = Inr (r, w') \<and>
          toggles_only c (MCA_RTC_PERIODIC_EN c) on w w'"
proof -
  let ?u = "regmap_update_bits w (MCA_RTC_CONTROL c) (MCA_RTC_PERIODIC_EN c)
              (if on then MCA_RTC_PERIODIC_EN c else 0)"
  have t: "toggles_only c (MCA_RTC_PERIODIC_EN c) on w (snd ?u)" by (rule toggles_only_update)
  show ?thesis
  proof (cases "fst ?u = 0")
    case True
    then have "mca_rtc_ioctl c w (if on then RTC_MCA_PIE_ON else RTC_MCA_PIE_OFF) arg = Inr (0, snd ?u)"
      by (cases on; cases ?u; simp add: mca_rtc_ioctl_def Let_def)
    then show ?thesis using t by blast
  next
    case False
    then have "mca_rtc_ioctl c w (if on then RTC_MCA_PIE_ON else RTC_MCA_PIE_OFF) arg =
          Inr (- EFAULT, dev_err (snd ?u) ''Cannot update MCA_RTC_CONTROL register (%d)'' [fst ?u])"
      by (cases on; cases ?u; simp add: mca_rtc_ioctl_def Let_def)
    then show ?thesis using toggles_only_err[OF t] by blast
  qed
qed

lemma pin_store:
  "toggles_only c (MCA_RTC_IRQ_PIN_EN c) on w
     (snd (rtc_irq_pin_enable_store c w ((if on then ''enabled'' else ''disabled'') @ rest) count))"
proof -
  let ?u = "regmap_update_bits w (MCA_RTC_CONTROL c) (MCA_RTC_IRQ_PIN_EN c)
              (if on then MCA_RTC_IRQ_PIN_EN c else 0)"
  have t: "toggles_only c (MCA_RTC_IRQ_PIN_EN c) on w (snd ?u)" by (rule toggles_only_update)
  have "snd (rtc_irq_pin_enable_store c w ((if on then ''enabled'' else ''disabled'') @ rest) count) =
        (if fst ?u \<noteq> 0 then dev_err (snd ?u) ''Cannot update MCA_RTC_CONTROL register (%d)'' [fst ?u] else snd ?u)"
    by (cases on; cases ?u; simp add: rtc_irq_pin_enable_store_def Let_def)
  then show ?thesis using t toggles_only_err[OF t] by simp
qed

text \<open>
  Claim C10. Starting and stopping the alarm, the UIE and PIE ioctls and the store
  to the irq-pin-enable attribute each issue one \<open>update_bits\<close> on the control
  register under the mask of their own bit; no other register and no bit outside
  that mask changes.
\<close>

theorem control_writes_are_masked:
  "toggles_only c (MCA_RTC_ALARM_EN c) True w (snd (mca_rtc_start_alarm c w)) \<and>
   toggles_only c (MCA_RTC_ALARM_EN c) False w (snd (mca_rtc_stop_alarm c w)) \<and>
   (\<exists>r w'. mca_rtc_ioctl c w RTC_MCA_UIE_ON arg = Inr (r, w') \<and>
            toggles_only c (MCA_RTC_1HZ_EN c) True w w') \<and>
   (\<exists>r w'. mca_rtc_ioctl c w RTC_MCA_UIE_OFF arg = Inr (r, w') \<and>
            toggles_only c (MCA_RTC_1HZ_EN c) False w w') \<and>
   (\<exists>r w'. mca_rtc_ioctl c w RTC_MCA_PIE_ON arg = Inr (r, w') \<and>
            toggles_only c (MCA_RTC_PERIODIC_EN c) True w w') \<and>
   (\<exists>r w'. mca_rtc_ioctl c w RTC_MCA_PIE_OFF arg = Inr (r, w') \<and>
            toggles_only c (MCA_RTC_PERIODIC_EN c) False w w') \<and>
   toggles_only c (MCA_RTC_IRQ_PIN_EN c) True w
     (snd (rtc_irq_pin_enable_store c w (''enabled'' @ rest) count)) \<and>
   toggles_only c (MCA_RTC_IRQ_PIN_EN c) False w
     (snd (rtc_irq_pin_enable_store c w (''disabled'' @ rest) count))"
proof (intro conjI)
  show "toggles_only c (MCA_RTC_ALARM_EN c) True w (snd (mca_rtc_start_alarm c w))"
    using toggles_only_update[of c "MCA_RTC_ALARM_EN c" True w]
    by (simp add: mca_rtc_start_alarm_def)
  show "toggles_only c (MCA_RTC_ALARM_EN c) False w (snd (mca_rtc_stop_alarm c w))"
    using toggles_only_update[of c "MCA_RTC_ALARM_EN c" False w]
    by (simp add: mca_rtc_stop_alarm_def)
  show "\<exists>r w'. mca_rtc_ioctl c w RTC_MCA_UIE_ON arg = Inr (r, w') \<and>
            toggles_only c (MCA_RTC_1HZ_EN c) True w w'"
    using ioctl_uie[of c w True arg] by simp
  show "\<exists>r w'. mca_rtc_ioctl c w RTC_MCA_UIE_OFF arg = Inr (r, w') \<and>
            toggles_only c (MCA_RTC_1HZ_EN c) False w w'"
    using ioctl_uie[of c w False arg] by simp
  show "\<exists>r w'. mca_rtc_ioctl c w RTC_MCA_PIE_ON arg = Inr (r, w') \<and>
            toggles_only c (MCA_RTC_PERIODIC_EN c) True w w'"
    using ioctl_pie[of c w True arg] by simp
  show "\<exists>r w'. mca_rtc_ioctl c w RTC_MCA_PIE_OFF arg = Inr (r, w') \<and>
            toggles_only c (MCA_RTC_PERIODIC_EN c) False w w'"
    using ioctl_pie[of c w False arg] by simp
  show "toggles_only c (MCA_RTC_IRQ_PIN_EN c) True w
     (snd (rtc_irq_pin_enable_store c w (''enabled'' @ rest) count))"
    using pin_store[of c True w rest count] by simp
  show "toggles_only c (MCA_RTC_IRQ_PIN_EN c) False w
     (snd (rtc_irq_pin_enable_store c w (''disabled'' @ rest) count))"
    using pin_store[of c False w rest count] by simp
qed

theorem control_writes_are_masked_witness:
  "\<not> bit (MCA_RTC_ALARM_EN sample_defs) 0 \<and>
   bit (MCA_RTC_ALARM_EN sample_defs) 1 \<and>
   bit (regs (sample_world\<lparr>regs := (\<lambda>a. 255)\<rparr>) (MCA_RTC_CONTROL sample_defs)) 0 \<and>
   bit (regs (snd (mca_rtc_stop_alarm sample_defs (sample_world\<lparr>regs := (\<lambda>a. 255)\<rparr>)))
          (MCA_RTC_CONTROL sample_defs)) 0 \<and>
   \<not> bit (regs (snd (mca_rtc_stop_alarm sample_defs (sample_world\<lparr>regs := (\<lambda>a. 255)\<rparr>)))
          (MCA_RTC_CONTROL sample_defs)) 1"
proof -
  let ?w = "sample_world\<lparr>regs := (\<lambda>a. 255)\<rparr>"
  have t: "toggles_only sample_defs (MCA_RTC_ALARM_EN sample_defs) False ?w
             (snd (mca_rtc_stop_alarm sample_defs ?w))"
    using control_writes_are_masked [of sample_defs ?w 0 "[]" 0] by blast
  have m0: "\<not> bit (MCA_RTC_ALARM_EN sample_defs) 0" by (simp add: sample_defs_def)
  have m1: "bit (MCA_RTC_ALARM_EN sample_defs) 1" by (simp add: sample_defs_def bit_iff_odd_drop_bit)
  have r0: "bit (regs ?w (MCA_RTC_CONTROL sample_defs)) 0" by simp
  have e: "bus_errno ?w 0 = 0" by (simp add: bus_errno_def sample_world_def)
  from t m0 r0 have a: "bit (regs (snd (mca_rtc_stop_alarm sample_defs ?w)) (MCA_RTC_CONTROL sample_defs)) 0"
    unfolding toggles_only_def by blast
  from t m1 e have b: "\<not> bit (regs (snd (mca_rtc_stop_alarm sample_defs ?w)) (MCA_RTC_CONTROL sample_defs)) 1"
    unfolding toggles_only_def by (simp add: bus_errno_def)
  show ?thesis using m0 m1 r0 a b by blast
qed

end
